theory Spec2Isabelle
  imports Complex_Main "HOL-Library.Word"
begin

section \<open>JavaScript values\<close>

text \<open>
  The server is a TypeScript program (\<^verbatim>\<open>index.ts\<close>, version 0.3.0 with the
  token-pruning options).  Its strings are sequences of UTF-16 code units, so
  \<^verbatim>\<open>length\<close> counts code units; its numbers are doubles.  A number is modelled by
  the exact rational it denotes, with the three values that are not rationals added;
  rounding above \<open>2^53\<close> is not modelled (no counter, cap or limit of the program
  comes near it).
\<close>

type_synonym code_unit = "16 word"
type_synonym jsstring = "code_unit list"

definition str :: "string \<Rightarrow> jsstring" where
  \<comment> \<open>an ASCII string literal of the source\<close>
  "str s = map (\<lambda>c. of_nat (of_char c)) s"

datatype number = NaN | Num rat | Infinity | MinusInfinity

definition num_ge :: "number \<Rightarrow> number \<Rightarrow> bool" where
  \<comment> \<open>\<^verbatim>\<open>a >= b\<close>: false as soon as one side is NaN\<close>
  "num_ge a b =
     (case (a, b) of
        (NaN, _) \<Rightarrow> False
      | (_, NaN) \<Rightarrow> False
      | (Infinity, _) \<Rightarrow> True
      | (_, MinusInfinity) \<Rightarrow> True
      | (Num x, Num y) \<Rightarrow> y \<le> x
      | (_, _) \<Rightarrow> False)"

definition num_le :: "number \<Rightarrow> number \<Rightarrow> bool" where
  "num_le a b = num_ge b a"

definition ToIntegerOrInfinity :: "rat \<Rightarrow> int" where
  \<comment> \<open>truncation toward zero, as \<^verbatim>\<open>slice\<close> applies it to its bounds\<close>
  "ToIntegerOrInfinity q = (if 0 \<le> q then \<lfloor>q\<rfloor> else \<lceil>q\<rceil>)"

definition slice0 :: "'a list \<Rightarrow> rat \<Rightarrow> 'a list" where
  \<comment> \<open>\<^verbatim>\<open>xs.slice(0, end)\<close> of a string or an array: a negative bound counts from the end\<close>
  "slice0 xs e =
     (let len = int (length xs);
          relativeEnd = ToIntegerOrInfinity e;
          final = (if relativeEnd < 0 then max (len + relativeEnd) 0 else min relativeEnd len)
      in take (nat final) xs)"

definition isWhiteSpace :: "code_unit \<Rightarrow> bool" where
  \<comment> \<open>WhiteSpace and LineTerminator of ECMAScript, what \<^verbatim>\<open>trim\<close> removes\<close>
  "isWhiteSpace c =
     (c = 0x09 \<or> c = 0x0A \<or> c = 0x0B \<or> c = 0x0C \<or> c = 0x0D \<or> c = 0x20 \<or> c = 0xA0 \<or>
      c = 0x1680 \<or> (0x2000 \<le> c \<and> c \<le> 0x200A) \<or> c = 0x2028 \<or> c = 0x2029 \<or>
      c = 0x202F \<or> c = 0x205F \<or> c = 0x3000 \<or> c = 0xFEFF)"

definition trim :: "jsstring \<Rightarrow> jsstring" where
  "trim s = rev (dropWhile isWhiteSpace (rev (dropWhile isWhiteSpace s)))"

definition join :: "jsstring \<Rightarrow> jsstring list \<Rightarrow> jsstring" where
  \<comment> \<open>\<^verbatim>\<open>xs.join(sep)\<close>\<close>
  "join sep xs = (case xs of [] \<Rightarrow> [] | x # r \<Rightarrow> x @ concat (map (\<lambda>y. sep @ y) r))"

definition digit :: "nat \<Rightarrow> char" where
  "digit n = (''0123456789'' ! n)"

fun decimal :: "nat \<Rightarrow> string" where
  "decimal n = (if n < 10 then [digit n] else decimal (n div 10) @ [digit (n mod 10)])"

declare decimal.simps [simp del]

definition isInteger :: "rat \<Rightarrow> bool" where
  "isInteger q = (q = of_int \<lfloor>q\<rfloor>)"

definition integerToString :: "int \<Rightarrow> jsstring" where
  "integerToString i = (if i < 0 then str ''-'' @ str (decimal (nat (- i))) else str (decimal (nat i)))"

text \<open>
  Tool-call arguments arrive as JSON.  An object is given by its properties;
  \<^verbatim>\<open>undefined\<close> (a property that is not there, a missing argument) is \<open>None\<close>.
\<close>

datatype jsvalue =
    JNull
  | JBool bool
  | JNum rat
  | JStr jsstring
  | JArr "jsvalue list"
  | JObj "(jsstring \<times> jsvalue) list"

definition getProp :: "jsvalue \<Rightarrow> string \<Rightarrow> jsvalue option" where
  \<comment> \<open>\<^verbatim>\<open>args[key]\<close> for one of the argument names; an array has none of them\<close>
  "getProp v key = (case v of JObj kvs \<Rightarrow> map_of kvs (str key) | _ \<Rightarrow> None)"

definition isObject :: "jsvalue \<Rightarrow> bool" where
  \<comment> \<open>\<^verbatim>\<open>typeof v === "object"\<close>, which null and arrays satisfy too\<close>
  "isObject v = (case v of JNull \<Rightarrow> True | JArr _ \<Rightarrow> True | JObj _ \<Rightarrow> True | _ \<Rightarrow> False)"

definition falsy :: "jsvalue option \<Rightarrow> bool" where
  \<comment> \<open>\<^verbatim>\<open>!v\<close>\<close>
  "falsy v =
     (case v of
        None \<Rightarrow> True
      | Some JNull \<Rightarrow> True
      | Some (JBool b) \<Rightarrow> \<not> b
      | Some (JNum n) \<Rightarrow> n = 0
      | Some (JStr s) \<Rightarrow> s = []
      | Some _ \<Rightarrow> False)"

section \<open>The runtime\<close>

text \<open>
  What the program takes from the JavaScript runtime and cannot be read off its own
  source is a parameter of the model: the conversion \<^verbatim>\<open>Number(s)\<close> of a string, the
  printing of a number that is not an integer, the locale's date format, and the WHATWG
  \<^verbatim>\<open>URL\<close> class, with \<open>'u\<close> the type of its objects.  \<open>URL_new\<close> is \<open>None\<close> where
  \<^verbatim>\<open>new URL(s)\<close> throws; \<open>searchParams_delete\<close> returns the object as the in-place
  deletion leaves it; \<open>searchParams_entries\<close> (the name--value pairs of
  \<^verbatim>\<open>u.searchParams\<close>) is not called by the program and serves to state what a
  deletion does.
\<close>

record 'u runtime =
  Number :: "jsstring \<Rightarrow> number"
  Number_toString :: "rat \<Rightarrow> jsstring"
  toLocaleDateString :: "rat \<Rightarrow> jsstring"
  URL_new :: "jsstring \<Rightarrow> 'u option"
  searchParams_entries :: "'u \<Rightarrow> (jsstring \<times> jsstring) list"
  searchParams_delete :: "'u \<Rightarrow> jsstring \<Rightarrow> 'u"
  URL_toString :: "'u \<Rightarrow> jsstring"

definition numberToString :: "'u runtime \<Rightarrow> number \<Rightarrow> jsstring" where
  \<comment> \<open>a number inside a template literal; an integer is printed in decimal (the exponent
      notation from \<open>10^21\<close> on is not modelled)\<close>
  "numberToString R n =
     (case n of
        NaN \<Rightarrow> str ''NaN''
      | Infinity \<Rightarrow> str ''Infinity''
      | MinusInfinity \<Rightarrow> str ''-Infinity''
      | Num q \<Rightarrow> if isInteger q then integerToString \<lfloor>q\<rfloor> else Number_toString R q)"

definition isDigit :: "code_unit \<Rightarrow> bool" where
  "isDigit c = (0x30 \<le> c \<and> c \<le> 0x39)"

definition digitsValue :: "jsstring \<Rightarrow> nat" where
  "digitsValue z = foldl (\<lambda>a c. 10 * a + (unat c - 48)) 0 z"

definition parseInt :: "jsstring \<Rightarrow> number" where
  \<comment> \<open>\<^verbatim>\<open>parseInt(s, 10)\<close>: leading white space, a sign, then the longest run of digits;
      NaN when there is no digit\<close>
  "parseInt s =
     (let S = dropWhile isWhiteSpace s;
          negative = (S \<noteq> [] \<and> hd S = 0x2D);
          S' = (if S \<noteq> [] \<and> (hd S = 0x2B \<or> hd S = 0x2D) then tl S else S);
          Z = takeWhile isDigit S'
      in if Z = [] then NaN
         else Num (of_int (if negative then - int (digitsValue Z) else int (digitsValue Z))))"

section \<open>Environment configuration\<close>

type_synonym env = "string \<Rightarrow> jsstring option"

datatype OutputFormat = Dense | Json | Minimal

datatype SafeSearch = Strict | Moderate | Off

datatype TimeRange = TimeDay | TimeWeek | TimeMonth | TimeYear | TimeAll

record EnvConfig =
  DDG_MAX_RESULTS :: rat
  DDG_MAX_SNIPPET_LENGTH :: rat
  DDG_ENABLE_FULL_CONTENT :: bool
  DDG_STRIP_EMOJI :: bool
  DDG_OUTPUT_FORMAT :: OutputFormat

datatype startup_error = ZodError "string list"

definition coerceNumber :: "'u runtime \<Rightarrow> rat \<Rightarrow> rat \<Rightarrow> rat \<Rightarrow> jsstring option \<Rightarrow> rat option" where
  \<comment> \<open>\<^verbatim>\<open>z.coerce.number().min(lo).max(hi).default(d)\<close>; \<open>None\<close> is a validation issue\<close>
  "coerceNumber R lo hi d v =
     (case v of
        None \<Rightarrow> Some d
      | Some s \<Rightarrow>
          (case Number R s of
             Num q \<Rightarrow> if lo \<le> q \<and> q \<le> hi then Some q else None
           | _ \<Rightarrow> None))"

definition preprocessFlag :: "jsstring option \<Rightarrow> bool" where
  \<comment> \<open>\<^verbatim>\<open>z.preprocess((v) => v === "true" || v === "1", z.boolean().default(false))\<close>\<close>
  "preprocessFlag v = (v = Some (str ''true'') \<or> v = Some (str ''1''))"

definition outputFormatEnum :: "jsstring option \<Rightarrow> OutputFormat option" where
  \<comment> \<open>\<^verbatim>\<open>z.enum(["dense", "json", "minimal"]).default("dense")\<close>\<close>
  "outputFormatEnum v =
     (case v of
        None \<Rightarrow> Some Dense
      | Some s \<Rightarrow>
          if s = str ''dense'' then Some Dense
          else if s = str ''json'' then Some Json
          else if s = str ''minimal'' then Some Minimal
          else None)"

definition EnvConfigSchema_parse :: "'u runtime \<Rightarrow> env \<Rightarrow> startup_error + EnvConfig" where
  "EnvConfigSchema_parse R e =
     (case (coerceNumber R 1 20 3 (e ''DDG_MAX_RESULTS''),
            coerceNumber R 50 500 150 (e ''DDG_MAX_SNIPPET_LENGTH''),
            outputFormatEnum (e ''DDG_OUTPUT_FORMAT'')) of
        (Some maxResults, Some maxSnippet, Some fmt) \<Rightarrow>
          Inr \<lparr>DDG_MAX_RESULTS = maxResults,
               DDG_MAX_SNIPPET_LENGTH = maxSnippet,
               DDG_ENABLE_FULL_CONTENT = preprocessFlag (e ''DDG_ENABLE_FULL_CONTENT''),
               DDG_STRIP_EMOJI = preprocessFlag (e ''DDG_STRIP_EMOJI''),
               DDG_OUTPUT_FORMAT = fmt\<rparr>
      | (r, l, f) \<Rightarrow>
          Inl (ZodError
                 ((if r = None then [''DDG_MAX_RESULTS''] else []) @
                  (if l = None then [''DDG_MAX_SNIPPET_LENGTH''] else []) @
                  (if f = None then [''DDG_OUTPUT_FORMAT''] else []))))"

record RateLimit =
  perSecond :: number
  perMonth :: number

record SearchConfig =
  maxQueryLength :: nat
  maxResults :: rat
  defaultResults :: rat
  maxSnippetLength :: rat
  enableFullContent :: bool
  stripEmoji :: bool
  outputFormat :: OutputFormat
  defaultSafeSearch :: SafeSearch
  defaultRegion :: jsstring

record Config =
  rateLimit :: RateLimit
  search :: SearchConfig

definition CONFIG :: "'u runtime \<Rightarrow> env \<Rightarrow> startup_error + Config" where
  \<comment> \<open>the module's top level: the schema's parse throws at start-up, \<^verbatim>\<open>parseInt\<close> never does.
      The server name and version and the log level are left out: logging writes to
      stderr only.\<close>
  "CONFIG R e =
     (case EnvConfigSchema_parse R e of
        Inl err \<Rightarrow> Inl err
      | Inr envConfig \<Rightarrow>
          Inr \<lparr>rateLimit =
                 \<lparr>perSecond =
                    parseInt (case e ''RATE_LIMIT_PER_SECOND'' of None \<Rightarrow> str ''1'' | Some s \<Rightarrow> s),
                  perMonth =
                    parseInt (case e ''RATE_LIMIT_PER_MONTH'' of None \<Rightarrow> str ''15000'' | Some s \<Rightarrow> s)\<rparr>,
               search =
                 \<lparr>maxQueryLength = 400,
                  maxResults = 20,
                  defaultResults = DDG_MAX_RESULTS envConfig,
                  maxSnippetLength = DDG_MAX_SNIPPET_LENGTH envConfig,
                  enableFullContent = DDG_ENABLE_FULL_CONTENT envConfig,
                  stripEmoji = DDG_STRIP_EMOJI envConfig,
                  outputFormat = DDG_OUTPUT_FORMAT envConfig,
                  defaultSafeSearch = Moderate,
                  defaultRegion = str ''wt-wt''\<rparr>\<rparr>)"

section \<open>Rate limiting\<close>

definition ONE_SECOND_MS :: int where
  "ONE_SECOND_MS = 1000"

definition ONE_MONTH_MS :: int where
  "ONE_MONTH_MS = 30 * 24 * 60 * 60 * 1000"

record RequestCount =
  second :: nat
  month :: nat
  lastSecondReset :: int
  lastMonthReset :: int

definition requestCount_initial :: "int \<Rightarrow> int \<Rightarrow> RequestCount" where
  \<comment> \<open>the module-level object; its two \<^verbatim>\<open>Date.now()\<close> readings are \<open>t\<close> and \<open>t'\<close>\<close>
  "requestCount_initial t t' = \<lparr>second = 0, month = 0, lastSecondReset = t, lastMonthReset = t'\<rparr>"

datatype error = Error jsstring

definition perSecondMessage :: "'u runtime \<Rightarrow> Config \<Rightarrow> jsstring" where
  "perSecondMessage R cfg =
     str ''Rate limit exceeded: Maximum '' @ numberToString R (perSecond (rateLimit cfg)) @
     str '' request(s) per second''"

definition perMonthMessage :: "'u runtime \<Rightarrow> Config \<Rightarrow> jsstring" where
  "perMonthMessage R cfg =
     str ''Rate limit exceeded: Maximum '' @ numberToString R (perMonth (rateLimit cfg)) @
     str '' requests per month''"

definition checkRateLimit ::
  "'u runtime \<Rightarrow> Config \<Rightarrow> int \<Rightarrow> RequestCount \<Rightarrow> (error + unit) \<times> RequestCount" where
  \<comment> \<open>\<open>now\<close> is the reading of \<^verbatim>\<open>Date.now()\<close>; the counter object is passed in and
      returned as the call leaves it, also when the call throws\<close>
  "checkRateLimit R cfg now rc =
     (let rc1 = (if now - lastSecondReset rc > ONE_SECOND_MS
                 then rc\<lparr>second := 0, lastSecondReset := now\<rparr> else rc);
          rc2 = (if now - lastMonthReset rc1 > ONE_MONTH_MS
                 then rc1\<lparr>month := 0, lastMonthReset := now\<rparr> else rc1)
      in if num_ge (Num (of_nat (second rc2))) (perSecond (rateLimit cfg))
         then (Inl (Error (perSecondMessage R cfg)), rc2)
         else if num_ge (Num (of_nat (month rc2))) (perMonth (rateLimit cfg))
         then (Inl (Error (perMonthMessage R cfg)), rc2)
         else (Inr (), rc2\<lparr>second := second rc2 + 1, month := month rc2 + 1\<rparr>))"

definition resetElapsedWindows :: "int \<Rightarrow> RequestCount \<Rightarrow> RequestCount" where
  \<comment> \<open>the counters once every window that has elapsed at \<open>now\<close> is reset: the state the
      caps are compared with\<close>
  "resetElapsedWindows now rc =
     \<lparr>second = (if now - lastSecondReset rc > ONE_SECOND_MS then 0 else second rc),
      month = (if now - lastMonthReset rc > ONE_MONTH_MS then 0 else month rc),
      lastSecondReset = (if now - lastSecondReset rc > ONE_SECOND_MS then now else lastSecondReset rc),
      lastMonthReset = (if now - lastMonthReset rc > ONE_MONTH_MS then now else lastMonthReset rc)\<rparr>"

definition secondCapHit :: "Config \<Rightarrow> RequestCount \<Rightarrow> bool" where
  "secondCapHit cfg rc = num_ge (Num (of_nat (second rc))) (perSecond (rateLimit cfg))"

definition monthCapHit :: "Config \<Rightarrow> RequestCount \<Rightarrow> bool" where
  "monthCapHit cfg rc = num_ge (Num (of_nat (month rc))) (perMonth (rateLimit cfg))"

definition withinCaps :: "Config \<Rightarrow> RequestCount \<Rightarrow> bool" where
  \<comment> \<open>\<^verbatim>\<open>secondCount <= perSecondCap && monthCount <= perMonthCap\<close>\<close>
  "withinCaps cfg rc =
     (num_le (Num (of_nat (second rc))) (perSecond (rateLimit cfg)) \<and>
      num_le (Num (of_nat (month rc))) (perMonth (rateLimit cfg)))"

section \<open>Token pruning helpers\<close>

definition truncateSnippet :: "jsstring \<Rightarrow> rat \<Rightarrow> jsstring" where
  "truncateSnippet text maxLen =
     (if of_nat (length text) \<le> maxLen then text
      else slice0 text (maxLen - 3) @ str ''...'')"

definition trackingParams :: "jsstring list" where
  "trackingParams =
     [str ''utm_source'', str ''utm_medium'', str ''utm_campaign'', str ''utm_term'',
      str ''utm_content'', str ''fbclid'', str ''gclid'', str ''msclkid'', str ''ref'']"

definition cleanUrl :: "'u runtime \<Rightarrow> jsstring \<Rightarrow> jsstring" where
  \<comment> \<open>the \<^verbatim>\<open>catch\<close> returns the original string where \<^verbatim>\<open>new URL(url)\<close> throws\<close>
  "cleanUrl R url =
     (case URL_new R url of
        None \<Rightarrow> url
      | Some u \<Rightarrow> URL_toString R (foldl (searchParams_delete R) u trackingParams))"

text \<open>
  What the sanitizer relies on in the \<^verbatim>\<open>URL\<close> class, from the WHATWG URL standard:
  deleting a name removes the pairs of that name and keeps the others in order; once a
  deletion has rewritten the query, deleting a name that is not there changes nothing;
  and the serialization of an object whose query a deletion has rewritten parses back to
  that object.  \<open>deleteAll\<close> is the loop over the tracking parameters.
\<close>

definition URL_contract :: "'u runtime \<Rightarrow> bool" where
  "URL_contract R \<longleftrightarrow>
     (\<forall>u p. searchParams_entries R (searchParams_delete R u p) =
             filter (\<lambda>(n, v). n \<noteq> p) (searchParams_entries R u)) \<and>
     (\<forall>u p q. q \<notin> fst ` set (searchParams_entries R (searchParams_delete R u p)) \<longrightarrow>
               searchParams_delete R (searchParams_delete R u p) q = searchParams_delete R u p) \<and>
     (\<forall>u p. URL_new R (URL_toString R (searchParams_delete R u p)) =
             Some (searchParams_delete R u p))"

definition deleteAll :: "'u runtime \<Rightarrow> 'u \<Rightarrow> jsstring list \<Rightarrow> 'u" where
  "deleteAll R u ps = foldl (searchParams_delete R) u ps"

definition isHighSurrogate :: "code_unit \<Rightarrow> bool" where
  "isHighSurrogate c = (0xD800 \<le> c \<and> c \<le> 0xDBFF)"

definition isLowSurrogate :: "code_unit \<Rightarrow> bool" where
  "isLowSurrogate c = (0xDC00 \<le> c \<and> c \<le> 0xDFFF)"

definition codePoint :: "code_unit \<Rightarrow> code_unit \<Rightarrow> nat" where
  \<comment> \<open>the code point of a surrogate pair\<close>
  "codePoint hi lo = 0x10000 + (unat hi - 0xD800) * 0x400 + (unat lo - 0xDC00)"

definition isEmoji :: "nat \<Rightarrow> bool" where
  \<comment> \<open>the character class of the regular expression in \<^verbatim>\<open>stripEmojis\<close>\<close>
  "isEmoji cp =
     ((0x1F600 \<le> cp \<and> cp \<le> 0x1F64F) \<or> (0x1F300 \<le> cp \<and> cp \<le> 0x1F5FF) \<or>
      (0x1F680 \<le> cp \<and> cp \<le> 0x1F6FF) \<or> (0x1F1E0 \<le> cp \<and> cp \<le> 0x1F1FF) \<or>
      (0x2600 \<le> cp \<and> cp \<le> 0x26FF) \<or> (0x2700 \<le> cp \<and> cp \<le> 0x27BF))"

fun stripEmojis :: "jsstring \<Rightarrow> jsstring" where
  \<comment> \<open>the \<^verbatim>\<open>u\<close> flag makes the expression match code points: a surrogate pair is one\<close>
  "stripEmojis [] = []"
| "stripEmojis [c] = (if isEmoji (unat c) then [] else [c])"
| "stripEmojis (c # d # cs) =
     (if isHighSurrogate c \<and> isLowSurrogate d
      then (if isEmoji (codePoint c d) then stripEmojis cs else c # d # stripEmojis cs)
      else if isEmoji (unat c) then stripEmojis (d # cs)
      else c # stripEmojis (d # cs))"

section \<open>Validation\<close>

definition isValidQuery :: "Config \<Rightarrow> jsvalue option \<Rightarrow> bool" where
  "isValidQuery cfg query =
     (case query of
        Some (JStr s) \<Rightarrow> length (trim s) > 0 \<and> length s \<le> maxQueryLength (search cfg)
      | _ \<Rightarrow> False)"

definition isValidCount :: "Config \<Rightarrow> jsvalue option \<Rightarrow> bool" where
  "isValidCount cfg count =
     (case count of
        None \<Rightarrow> True
      | Some (JNum n) \<Rightarrow> n \<ge> 1 \<and> n \<le> maxResults (search cfg)
      | _ \<Rightarrow> False)"

definition isValidLimit :: "Config \<Rightarrow> jsvalue option \<Rightarrow> bool" where
  "isValidLimit cfg limit =
     (case limit of
        None \<Rightarrow> True
      | Some (JNum n) \<Rightarrow> n \<ge> 1 \<and> n \<le> maxResults (search cfg)
      | _ \<Rightarrow> False)"

definition isValidSafeSearch :: "jsvalue option \<Rightarrow> bool" where
  "isValidSafeSearch safeSearch =
     (case safeSearch of
        None \<Rightarrow> True
      | Some (JStr s) \<Rightarrow> s \<in> set [str ''strict'', str ''moderate'', str ''off'']
      | _ \<Rightarrow> False)"

definition isValidTime :: "jsvalue option \<Rightarrow> bool" where
  "isValidTime time =
     (case time of
        None \<Rightarrow> True
      | Some (JStr s) \<Rightarrow> s \<in> set [str ''day'', str ''week'', str ''month'', str ''year'', str ''all'']
      | _ \<Rightarrow> False)"

definition VALID_REGIONS :: "jsstring list" where
  "VALID_REGIONS =
     [str ''wt-wt'', str ''us-en'', str ''uk-en'', str ''ca-en'', str ''au-en'', str ''de-de'',
      str ''fr-fr'', str ''es-es'', str ''it-it'', str ''jp-jp'', str ''br-pt'', str ''mx-es'',
      str ''in-en'']"

definition isAsciiLetter :: "code_unit \<Rightarrow> bool" where
  "isAsciiLetter c = ((0x41 \<le> c \<and> c \<le> 0x5A) \<or> (0x61 \<le> c \<and> c \<le> 0x7A))"

definition regionPattern :: "jsstring \<Rightarrow> bool" where
  \<comment> \<open>\<^verbatim>\<open>/^[a-z]{2}-[a-z]{2}$/i\<close>: without the \<^verbatim>\<open>u\<close> flag, ignoring case adds the capital
      ASCII letters only\<close>
  "regionPattern s =
     (case s of
        [a, b, c, d, e] \<Rightarrow>
          isAsciiLetter a \<and> isAsciiLetter b \<and> c = 0x2D \<and> isAsciiLetter d \<and> isAsciiLetter e
      | _ \<Rightarrow> False)"

definition isValidRegion :: "jsvalue option \<Rightarrow> bool" where
  "isValidRegion region =
     (case region of
        None \<Rightarrow> True
      | Some (JStr s) \<Rightarrow> s \<in> set VALID_REGIONS \<or> regionPattern s
      | _ \<Rightarrow> False)"

definition isWebSearchArgs :: "Config \<Rightarrow> jsvalue \<Rightarrow> bool" where
  "isWebSearchArgs cfg args =
     (if \<not> isObject args \<or> args = JNull then False
      else isValidQuery cfg (getProp args ''query'') \<and>
           isValidCount cfg (getProp args ''count'') \<and>
           isValidLimit cfg (getProp args ''limit'') \<and>
           isValidSafeSearch (getProp args ''safeSearch'') \<and>
           isValidRegion (getProp args ''region'') \<and>
           isValidTime (getProp args ''time''))"

definition isNewsSearchArgs :: "Config \<Rightarrow> jsvalue \<Rightarrow> bool" where
  "isNewsSearchArgs cfg args =
     (if \<not> isObject args \<or> args = JNull then False
      else isValidQuery cfg (getProp args ''query'') \<and>
           isValidCount cfg (getProp args ''count'') \<and>
           isValidLimit cfg (getProp args ''limit'') \<and>
           isValidSafeSearch (getProp args ''safeSearch'') \<and>
           isValidTime (getProp args ''time''))"

text \<open>
  The guards narrow the type of \<^verbatim>\<open>args\<close> without converting it.  The records below are
  the narrowed types, and \<open>asNewsSearchArgs\<close> and \<open>asWebSearchArgs\<close> read an object that
  passed its guard at them.
\<close>

record NewsSearchArgs =
  query :: jsstring
  count :: "rat option"
  limit :: "rat option"
  safeSearch :: "SafeSearch option"
  time :: "TimeRange option"

record WebSearchArgs = NewsSearchArgs +
  region :: "jsstring option"

definition asString :: "jsvalue option \<Rightarrow> jsstring option" where
  "asString v = (case v of Some (JStr s) \<Rightarrow> Some s | _ \<Rightarrow> None)"

definition asNumber :: "jsvalue option \<Rightarrow> rat option" where
  "asNumber v = (case v of Some (JNum n) \<Rightarrow> Some n | _ \<Rightarrow> None)"

definition asSafeSearch :: "jsvalue option \<Rightarrow> SafeSearch option" where
  "asSafeSearch v =
     (case asString v of
        None \<Rightarrow> None
      | Some s \<Rightarrow>
          if s = str ''strict'' then Some Strict
          else if s = str ''moderate'' then Some Moderate
          else if s = str ''off'' then Some Off
          else None)"

definition asTimeRange :: "jsvalue option \<Rightarrow> TimeRange option" where
  "asTimeRange v =
     (case asString v of
        None \<Rightarrow> None
      | Some s \<Rightarrow>
          if s = str ''day'' then Some TimeDay
          else if s = str ''week'' then Some TimeWeek
          else if s = str ''month'' then Some TimeMonth
          else if s = str ''year'' then Some TimeYear
          else if s = str ''all'' then Some TimeAll
          else None)"

definition asNewsSearchArgs :: "jsvalue \<Rightarrow> NewsSearchArgs" where
  "asNewsSearchArgs args =
     \<lparr>query = (case asString (getProp args ''query'') of Some s \<Rightarrow> s | None \<Rightarrow> []),
      count = asNumber (getProp args ''count''),
      limit = asNumber (getProp args ''limit''),
      safeSearch = asSafeSearch (getProp args ''safeSearch''),
      time = asTimeRange (getProp args ''time'')\<rparr>"

definition asWebSearchArgs :: "jsvalue \<Rightarrow> WebSearchArgs" where
  "asWebSearchArgs args =
     \<lparr>query = (case asString (getProp args ''query'') of Some s \<Rightarrow> s | None \<Rightarrow> []),
      count = asNumber (getProp args ''count''),
      limit = asNumber (getProp args ''limit''),
      safeSearch = asSafeSearch (getProp args ''safeSearch''),
      time = asTimeRange (getProp args ''time''),
      region = asString (getProp args ''region'')\<rparr>"

section \<open>Helper functions\<close>

text \<open>The provider's constants, \<^verbatim>\<open>DDG.SafeSearchType\<close> and \<^verbatim>\<open>DDG.SearchTimeType\<close>.\<close>

datatype SafeSearchType = STRICT | MODERATE | OFF

datatype SearchTimeType = ALL | DAY | WEEK | MONTH | YEAR

definition getSafeSearchType :: "SafeSearch \<Rightarrow> SafeSearchType" where
  "getSafeSearchType level =
     (case level of Strict \<Rightarrow> STRICT | Moderate \<Rightarrow> MODERATE | Off \<Rightarrow> OFF)"

definition getTimeType :: "TimeRange \<Rightarrow> SearchTimeType option" where
  \<comment> \<open>\<open>None\<close> is \<^verbatim>\<open>undefined\<close>\<close>
  "getTimeType t =
     (if t = TimeAll then None
      else (case t of
              TimeDay \<Rightarrow> Some DAY
            | TimeWeek \<Rightarrow> Some WEEK
            | TimeMonth \<Rightarrow> Some MONTH
            | TimeYear \<Rightarrow> Some YEAR
            | TimeAll \<Rightarrow> None))"

definition formatDate :: "'u runtime \<Rightarrow> rat \<Rightarrow> jsstring" where
  "formatDate R timestamp = toLocaleDateString R timestamp"

section \<open>The search provider and the server state\<close>

text \<open>
  The provider (\<^verbatim>\<open>duck-duck-scrape\<close>) is outside the program.  What it answers, and
  what the clock reads, is the world at a call; a provider call that throws is \<open>Inl\<close>.
  The options object of a call is the list of its keys with their values.  The state of
  the server is the counter object and, as a ghost, the log of the provider calls made.
\<close>

record SearchResult =
  r_title :: jsstring
  r_description :: jsstring
  r_url :: jsstring
  r_hostname :: jsstring

record NewsResult =
  n_title :: jsstring
  n_excerpt :: jsstring
  n_url :: jsstring
  n_syndicate :: jsstring
  n_date :: rat
  n_relativeTime :: jsstring

record 'r SearchResults =
  noResults :: bool
  results :: "'r list"

datatype option_value =
    SafeSearchOption SafeSearchType
  | RegionOption jsstring
  | TimeOption SearchTimeType
  | UndefinedOption

type_synonym search_options = "(string \<times> option_value) list"

datatype ProviderCall =
    SearchCall jsstring search_options
  | SearchNewsCall jsstring search_options

record world =
  Date_now :: int
  DDG_search :: "jsstring \<Rightarrow> search_options \<Rightarrow> error + SearchResult SearchResults"
  DDG_searchNews :: "jsstring \<Rightarrow> search_options \<Rightarrow> error + NewsResult SearchResults"

record ServerState =
  requestCount :: RequestCount
  providerCalls :: "ProviderCall list"

definition initialState :: "int \<Rightarrow> int \<Rightarrow> ServerState" where
  "initialState t t' = \<lparr>requestCount = requestCount_initial t t', providerCalls = []\<rparr>"

section \<open>JSON.stringify\<close>

definition quote :: jsstring where
  "quote = [0x22]"

definition newline :: jsstring where
  "newline = [0x0A]"

definition hexDigit :: "nat \<Rightarrow> code_unit" where
  "hexDigit n = of_nat (of_char (''0123456789abcdef'' ! n))"

definition unicodeEscape :: "code_unit \<Rightarrow> jsstring" where
  "unicodeEscape c =
     [0x5C, 0x75, hexDigit (unat c div 4096), hexDigit (unat c div 256 mod 16),
      hexDigit (unat c div 16 mod 16), hexDigit (unat c mod 16)]"

definition escapeUnit :: "code_unit \<Rightarrow> jsstring" where
  "escapeUnit c =
     (if c = 0x08 then [0x5C, 0x62]
      else if c = 0x09 then [0x5C, 0x74]
      else if c = 0x0A then [0x5C, 0x6E]
      else if c = 0x0C then [0x5C, 0x66]
      else if c = 0x0D then [0x5C, 0x72]
      else if c = 0x22 then [0x5C, 0x22]
      else if c = 0x5C then [0x5C, 0x5C]
      else if c < 0x20 \<or> isHighSurrogate c \<or> isLowSurrogate c then unicodeEscape c
      else [c])"

fun quoteUnits :: "jsstring \<Rightarrow> jsstring" where
  \<comment> \<open>a surrogate pair is copied, a lone surrogate escaped\<close>
  "quoteUnits [] = []"
| "quoteUnits [c] = escapeUnit c"
| "quoteUnits (c # d # cs) =
     (if isHighSurrogate c \<and> isLowSurrogate d then c # d # quoteUnits cs
      else escapeUnit c @ quoteUnits (d # cs))"

definition QuoteJSONString :: "jsstring \<Rightarrow> jsstring" where
  "QuoteJSONString s = quote @ quoteUnits s @ quote"

definition stringifyObject :: "(string \<times> jsstring) list \<Rightarrow> jsstring" where
  \<comment> \<open>an object whose properties are strings, in the order they were created\<close>
  "stringifyObject kvs =
     str ''{'' @
     join (str '','') (map (\<lambda>(k, v). QuoteJSONString (str k) @ str '':'' @ QuoteJSONString v) kvs) @
     str ''}''"

definition stringifyArray :: "jsstring list \<Rightarrow> jsstring" where
  "stringifyArray xs = str ''['' @ join (str '','') xs @ str '']''"

section \<open>Search functions\<close>

record WebSearchResult =
  title :: jsstring
  description :: jsstring
  url :: jsstring
  hostname :: jsstring

record NewsSearchResult =
  news_title :: jsstring
  excerpt :: jsstring
  news_url :: jsstring
  source :: jsstring
  date :: jsstring
  relativeTime :: jsstring

definition effectiveLimit :: "Config \<Rightarrow> 'a NewsSearchArgs_scheme \<Rightarrow> rat" where
  \<comment> \<open>\<^verbatim>\<open>limit ?? count ?? CONFIG.search.defaultResults\<close>\<close>
  "effectiveLimit cfg args =
     (case limit args of
        Some l \<Rightarrow> l
      | None \<Rightarrow> (case count args of Some c \<Rightarrow> c | None \<Rightarrow> defaultResults (search cfg)))"

definition webSearchOptions :: "SafeSearch \<Rightarrow> jsstring \<Rightarrow> TimeRange \<Rightarrow> search_options" where
  \<comment> \<open>the spread \<^verbatim>\<open>...(timeType !== undefined && { time: timeType })\<close> adds the key or nothing\<close>
  "webSearchOptions level reg t =
     (let timeType = getTimeType t
      in [(''safeSearch'', SafeSearchOption (getSafeSearchType level)),
          (''region'', RegionOption reg)] @
         (case timeType of None \<Rightarrow> [] | Some tt \<Rightarrow> [(''time'', TimeOption tt)]))"

definition newsSearchOptions :: "SafeSearch \<Rightarrow> TimeRange \<Rightarrow> search_options" where
  "newsSearchOptions level t =
     (let timeType = getTimeType t
      in [(''safeSearch'', SafeSearchOption (getSafeSearchType level))] @
         (case timeType of None \<Rightarrow> [] | Some tt \<Rightarrow> [(''time'', TimeOption tt)]))"

definition webResults ::
  "'u runtime \<Rightarrow> Config \<Rightarrow> rat \<Rightarrow> SearchResult list \<Rightarrow> WebSearchResult list" where
  \<comment> \<open>the array \<^verbatim>\<open>results\<close> of \<^verbatim>\<open>performWebSearch\<close>, once the emoji pass is over\<close>
  "webResults R cfg eff rs =
     (let mapped =
            map (\<lambda>r. \<lparr>title = (if stripEmoji (search cfg) then stripEmojis (r_title r) else r_title r),
                       description =
                         (let d = (if r_description r = [] then r_title r else r_description r)
                          in if enableFullContent (search cfg) then d
                             else truncateSnippet d (maxSnippetLength (search cfg))),
                       url = cleanUrl R (r_url r),
                       hostname = r_hostname r\<rparr>)
                (slice0 rs eff)
      in if stripEmoji (search cfg)
         then map (\<lambda>r. r\<lparr>description := stripEmojis (description r)\<rparr>) mapped
         else mapped)"

definition newsResults ::
  "'u runtime \<Rightarrow> Config \<Rightarrow> rat \<Rightarrow> NewsResult list \<Rightarrow> NewsSearchResult list" where
  "newsResults R cfg eff rs =
     (let mapped =
            map (\<lambda>r. \<lparr>news_title = (if stripEmoji (search cfg) then stripEmojis (n_title r) else n_title r),
                       excerpt =
                         (if enableFullContent (search cfg) then n_excerpt r
                          else truncateSnippet (n_excerpt r) (maxSnippetLength (search cfg))),
                       news_url = cleanUrl R (n_url r),
                       source = n_syndicate r,
                       date = formatDate R (n_date r),
                       relativeTime = n_relativeTime r\<rparr>)
                (slice0 rs eff)
      in if stripEmoji (search cfg)
         then map (\<lambda>r. r\<lparr>excerpt := stripEmojis (excerpt r)\<rparr>) mapped
         else mapped)"

definition renderWeb ::
  "'u runtime \<Rightarrow> Config \<Rightarrow> jsstring \<Rightarrow> rat \<Rightarrow> WebSearchResult list \<Rightarrow> jsstring" where
  \<comment> \<open>the three output formats of \<^verbatim>\<open>performWebSearch\<close>\<close>
  "renderWeb R cfg q eff rs =
     (if outputFormat (search cfg) = Json
      then stringifyArray
             (map (\<lambda>r. stringifyObject
                          [(''title'', title r), (''description'', description r),
                           (''url'', url r), (''hostname'', hostname r)]) rs)
      else if outputFormat (search cfg) = Minimal
      then join newline (map (\<lambda>r. title r @ str '': '' @ url r) rs)
      else (let formattedResults =
                  join newline
                    (map (\<lambda>(i, r). str ''['' @ str (decimal (i + 1)) @ str ''] '' @ title r @
                                    str '' | '' @ description r @ str '' | '' @ hostname r @
                                    str '' '' @ url r)
                         (zip [0..<length rs] rs))
            in str ''Web:'' @ quote @ q @ quote @ str '' ('' @ str (decimal (length rs)) @
               str ''/'' @ numberToString R (Num eff) @ str '')'' @ newline @ formattedResults))"

definition renderNews ::
  "'u runtime \<Rightarrow> Config \<Rightarrow> jsstring \<Rightarrow> rat \<Rightarrow> NewsSearchResult list \<Rightarrow> jsstring" where
  "renderNews R cfg q eff rs =
     (if outputFormat (search cfg) = Json
      then stringifyArray
             (map (\<lambda>r. stringifyObject
                          [(''title'', news_title r), (''excerpt'', excerpt r),
                           (''url'', news_url r), (''source'', source r),
                           (''date'', date r), (''relativeTime'', relativeTime r)]) rs)
      else if outputFormat (search cfg) = Minimal
      then join newline (map (\<lambda>r. news_title r @ str '': '' @ news_url r) rs)
      else (let formattedResults =
                  join newline
                    (map (\<lambda>(i, r). str ''['' @ str (decimal (i + 1)) @ str ''] '' @ news_title r @
                                    str '' | '' @ excerpt r @ str '' | '' @ source r @
                                    str '' '' @ relativeTime r @ str '' '' @ news_url r)
                         (zip [0..<length rs] rs))
            in str ''News:'' @ quote @ q @ quote @ str '' ('' @ str (decimal (length rs)) @
               str ''/'' @ numberToString R (Num eff) @ str '')'' @ newline @ formattedResults))"

definition noWebResultsMessage :: "jsstring \<Rightarrow> jsstring" where
  "noWebResultsMessage q = str ''No results for '' @ quote @ q @ quote"

definition noNewsResultsMessage :: "jsstring \<Rightarrow> jsstring" where
  "noNewsResultsMessage q = str ''No news for '' @ quote @ q @ quote"

definition performWebSearch ::
  "'u runtime \<Rightarrow> Config \<Rightarrow> world \<Rightarrow> WebSearchArgs \<Rightarrow> ServerState \<Rightarrow>
     (error + jsstring) \<times> ServerState" where
  "performWebSearch R cfg W args st =
     (let q = query args;
          level = (case safeSearch args of None \<Rightarrow> defaultSafeSearch (search cfg) | Some s \<Rightarrow> s);
          reg = (case region args of None \<Rightarrow> defaultRegion (search cfg) | Some r \<Rightarrow> r);
          t = (case time args of None \<Rightarrow> TimeAll | Some t \<Rightarrow> t);
          eff = effectiveLimit cfg args
      in case checkRateLimit R cfg (Date_now W) (requestCount st) of
           (Inl err, rc) \<Rightarrow> (Inl err, st\<lparr>requestCount := rc\<rparr>)
         | (Inr _, rc) \<Rightarrow>
             (let opts = webSearchOptions level reg t;
                  st' = st\<lparr>requestCount := rc,
                           providerCalls := providerCalls st @ [SearchCall q opts]\<rparr>
              in case DDG_search W q opts of
                   Inl err \<Rightarrow> (Inl err, st')
                 | Inr searchResults \<Rightarrow>
                     if noResults searchResults then (Inr (noWebResultsMessage q), st')
                     else (Inr (renderWeb R cfg q eff
                                  (webResults R cfg eff (results searchResults))), st')))"

definition performNewsSearch ::
  "'u runtime \<Rightarrow> Config \<Rightarrow> world \<Rightarrow> NewsSearchArgs \<Rightarrow> ServerState \<Rightarrow>
     (error + jsstring) \<times> ServerState" where
  "performNewsSearch R cfg W args st =
     (let q = query args;
          level = (case safeSearch args of None \<Rightarrow> defaultSafeSearch (search cfg) | Some s \<Rightarrow> s);
          t = (case time args of None \<Rightarrow> TimeAll | Some t \<Rightarrow> t);
          eff = effectiveLimit cfg args
      in case checkRateLimit R cfg (Date_now W) (requestCount st) of
           (Inl err, rc) \<Rightarrow> (Inl err, st\<lparr>requestCount := rc\<rparr>)
         | (Inr _, rc) \<Rightarrow>
             (let opts = newsSearchOptions level t;
                  st' = st\<lparr>requestCount := rc,
                           providerCalls := providerCalls st @ [SearchNewsCall q opts]\<rparr>
              in case DDG_searchNews W q opts of
                   Inl err \<Rightarrow> (Inl err, st')
                 | Inr searchResults \<Rightarrow>
                     if noResults searchResults then (Inr (noNewsResultsMessage q), st')
                     else (Inr (renderNews R cfg q eff
                                  (newsResults R cfg eff (results searchResults))), st')))"

section \<open>Request handler\<close>

record CallToolRequest =
  name :: jsstring
  arguments :: "jsvalue option"

record CallToolResult =
  content_text :: jsstring
  isError :: bool

definition invalidArgumentsMessage :: "Config \<Rightarrow> string \<Rightarrow> jsstring" where
  "invalidArgumentsMessage cfg tool =
     str ''Invalid arguments for '' @ str tool @
     str ''. Query must be a non-empty string (max '' @
     str (decimal (maxQueryLength (search cfg))) @ str '' chars).''"

definition toolOutcome ::
  "'u runtime \<Rightarrow> Config \<Rightarrow> world \<Rightarrow> CallToolRequest \<Rightarrow> ServerState \<Rightarrow>
     (error + CallToolResult) \<times> ServerState" where
  \<comment> \<open>the body of the \<^verbatim>\<open>try\<close> block: \<open>Inl\<close> is what it throws\<close>
  "toolOutcome R cfg W request st =
     (case arguments request of
        None \<Rightarrow> (Inl (Error (str ''No arguments provided'')), st)
      | Some args \<Rightarrow>
          if falsy (Some args) then (Inl (Error (str ''No arguments provided'')), st)
          else if name request = str ''duckduckgo_web_search''
          then (if \<not> isWebSearchArgs cfg args
                then (Inl (Error (invalidArgumentsMessage cfg ''duckduckgo_web_search'')), st)
                else (case performWebSearch R cfg W (asWebSearchArgs args) st of
                        (Inl err, st') \<Rightarrow> (Inl err, st')
                      | (Inr res, st') \<Rightarrow> (Inr \<lparr>content_text = res, isError = False\<rparr>, st')))
          else if name request = str ''duckduckgo_news_search''
          then (if \<not> isNewsSearchArgs cfg args
                then (Inl (Error (invalidArgumentsMessage cfg ''duckduckgo_news_search'')), st)
                else (case performNewsSearch R cfg W (asNewsSearchArgs args) st of
                        (Inl err, st') \<Rightarrow> (Inl err, st')
                      | (Inr res, st') \<Rightarrow> (Inr \<lparr>content_text = res, isError = False\<rparr>, st')))
          else (Inr \<lparr>content_text = str ''Unknown tool: '' @ name request, isError = True\<rparr>, st))"

definition callTool ::
  "'u runtime \<Rightarrow> Config \<Rightarrow> world \<Rightarrow> CallToolRequest \<Rightarrow> ServerState \<Rightarrow>
     CallToolResult \<times> ServerState" where
  \<comment> \<open>the handler of \<^verbatim>\<open>CallToolRequestSchema\<close>: its \<^verbatim>\<open>catch\<close> turns every error thrown
      into an error result\<close>
  "callTool R cfg W request st =
     (case toolOutcome R cfg W request st of
        (Inl (Error message), st') \<Rightarrow>
          (\<lparr>content_text = str ''Error: '' @ message, isError = True\<rparr>, st')
      | (Inr res, st') \<Rightarrow> (res, st'))"

fun serve ::
  "'u runtime \<Rightarrow> Config \<Rightarrow> (world \<times> CallToolRequest) list \<Rightarrow> ServerState \<Rightarrow> ServerState" where
  \<comment> \<open>the state after a sequence of tool calls, each in the world it meets\<close>
  "serve R cfg [] st = st"
| "serve R cfg ((W, request) # rest) st = serve R cfg rest (snd (callTool R cfg W request st))"

section \<open>A runtime for the worked examples\<close>

text \<open>
  The examples below need a runtime, a configuration and a world to run in.  The example
  runtime converts unsigned decimal numerals, prints halves, formats no date, and knows
  the four URLs that deleting parameters from
  \<^verbatim>\<open>https://x.com/a?utm_source=y&id=1\<close> can give.  \<open>defaultConfig\<close> is the
  configuration of an empty environment.  In an example world the provider gives one
  answer to every query.
\<close>

datatype example_url = Both | OnlyId | OnlySource | Bare

definition example_href :: "example_url \<Rightarrow> jsstring" where
  "example_href u =
     (case u of
        Both \<Rightarrow> str ''https://x.com/a?utm_source=y&id=1''
      | OnlyId \<Rightarrow> str ''https://x.com/a?id=1''
      | OnlySource \<Rightarrow> str ''https://x.com/a?utm_source=y''
      | Bare \<Rightarrow> str ''https://x.com/a'')"

definition example_new :: "jsstring \<Rightarrow> example_url option" where
  "example_new s =
     (if s = example_href Both then Some Both
      else if s = example_href OnlyId then Some OnlyId
      else if s = example_href OnlySource then Some OnlySource
      else if s = example_href Bare then Some Bare
      else None)"

definition example_entries :: "example_url \<Rightarrow> (jsstring \<times> jsstring) list" where
  "example_entries u =
     (case u of
        Both \<Rightarrow> [(str ''utm_source'', str ''y''), (str ''id'', str ''1'')]
      | OnlyId \<Rightarrow> [(str ''id'', str ''1'')]
      | OnlySource \<Rightarrow> [(str ''utm_source'', str ''y'')]
      | Bare \<Rightarrow> [])"

definition example_delete :: "example_url \<Rightarrow> jsstring \<Rightarrow> example_url" where
  "example_delete u p =
     (if p = str ''utm_source'' then (case u of Both \<Rightarrow> OnlyId | OnlySource \<Rightarrow> Bare | _ \<Rightarrow> u)
      else if p = str ''id'' then (case u of Both \<Rightarrow> OnlySource | OnlyId \<Rightarrow> Bare | _ \<Rightarrow> u)
      else u)"

definition exampleRuntime :: "example_url runtime" where
  "exampleRuntime =
     \<lparr>Number = (\<lambda>s. if s \<noteq> [] \<and> list_all isDigit s then parseInt s else NaN),
      Number_toString = (\<lambda>q. integerToString (ToIntegerOrInfinity q) @ str ''.5''),
      toLocaleDateString = (\<lambda>t. []),
      URL_new = example_new,
      searchParams_entries = example_entries,
      searchParams_delete = example_delete,
      URL_toString = example_href\<rparr>"

definition defaultConfig :: Config where
  "defaultConfig =
     \<lparr>rateLimit = \<lparr>perSecond = Num 1, perMonth = Num 15000\<rparr>,
      search =
        \<lparr>maxQueryLength = 400, maxResults = 20, defaultResults = 3, maxSnippetLength = 150,
         enableFullContent = False, stripEmoji = False, outputFormat = Dense,
         defaultSafeSearch = Moderate, defaultRegion = str ''wt-wt''\<rparr>\<rparr>"


definition rateCapEnv :: "string \<Rightarrow> env" where
  \<comment> \<open>an environment that sets \<^verbatim>\<open>RATE_LIMIT_PER_SECOND\<close> and nothing else\<close>
  "rateCapEnv v k = (if k = ''RATE_LIMIT_PER_SECOND'' then Some (str v) else None)"

definition exampleWorld ::
  "int \<Rightarrow> SearchResult SearchResults \<Rightarrow> NewsResult SearchResults \<Rightarrow> world" where
  "exampleWorld t web news =
     \<lparr>Date_now = t, DDG_search = (\<lambda>q opts. Inr web), DDG_searchNews = (\<lambda>q opts. Inr news)\<rparr>"


definition noAnswer :: "'r SearchResults" where
  "noAnswer = \<lparr>noResults = True, results = []\<rparr>"

definition emptyAnswer :: "'r SearchResults" where
  "emptyAnswer = \<lparr>noResults = False, results = []\<rparr>"

definition outputConfig :: "OutputFormat \<Rightarrow> Config" where
  "outputConfig fmt = defaultConfig\<lparr>search := (search defaultConfig)\<lparr>outputFormat := fmt\<rparr>\<rparr>"

definition webQuery :: "string \<Rightarrow> WebSearchArgs" where
  "webQuery q =
     \<lparr>query = str q, count = None, limit = None, safeSearch = None, time = None, region = None\<rparr>"

definition newsQuery :: "string \<Rightarrow> NewsSearchArgs" where
  "newsQuery q = \<lparr>query = str q, count = None, limit = None, safeSearch = None, time = None\<rparr>"

definition catsArgs :: jsvalue where
  "catsArgs = JObj [(str ''query'', JStr (str ''cats'')), (str ''limit'', JNum 2), (str ''count'', JNum 5)]"

definition blankArgs :: jsvalue where
  "blankArgs = JObj [(str ''query'', JStr (str ''   ''))]"

definition fractionArgs :: jsvalue where
  "fractionArgs = JObj [(str ''query'', JStr (str ''a'')), (str ''limit'', JNum (3 / 2))]"

definition exampleResult :: SearchResult where
  "exampleResult =
     \<lparr>r_title = str ''Cats'', r_description = str ''About cats'',
      r_url = str ''https://x.com/a?utm_source=y&id=1'', r_hostname = str ''x.com''\<rparr>"

section \<open>Snippet truncation\<close>

lemma str_length: "length (str s) = length s"
  by (simp add: str_def)

lemma slice0_of_int:
  "0 \<le> k \<Longrightarrow> k \<le> int (length xs) \<Longrightarrow> slice0 xs (of_int k) = take (nat k) xs"
  by (simp add: slice0_def ToIntegerOrInfinity_def Let_def)

text \<open>
  C5, as the code has it: for an integer cap of at least 3 (every integer cap the
  configuration admits lies in 50..500), a text no longer than the cap is returned
  unchanged, and a longer text becomes exactly \<open>maxLen\<close> code units, the last three
  being the ellipsis \<^verbatim>\<open>...\<close>; so 200 code units under a cap of 150 become exactly 150.
\<close>

theorem truncateSnippet_integer_cap:
  "3 \<le> m \<Longrightarrow>
     (int (length text) \<le> m \<longrightarrow> truncateSnippet text (of_int m) = text) \<and>
     (m < int (length text) \<longrightarrow>
        length (truncateSnippet text (of_int m)) = nat m \<and>
        truncateSnippet text (of_int m) = take (nat m - 3) text @ str ''...'')"
proof -
  assume m: "3 \<le> m"
  have le: "int (length text) \<le> m \<longleftrightarrow> (of_nat (length text) :: rat) \<le> of_int m"
    by (metis of_int_le_iff of_int_of_nat_eq)
  have sl: "m < int (length text) \<Longrightarrow> slice0 text (of_int m - 3) = take (nat m - 3) text"
  proof -
    assume lt: "m < int (length text)"
    have "slice0 text (of_int (m - 3)) = take (nat (m - 3)) text"
      using m lt by (intro slice0_of_int) auto
    moreover have "nat (m - 3) = nat m - 3" using m by simp
    ultimately show ?thesis by simp
  qed
  show ?thesis
    using m le sl by (auto simp: truncateSnippet_def str_length)
qed

theorem truncateSnippet_integer_cap_witness:
  "truncateSnippet (replicate 150 (0x61 :: code_unit)) 150 = replicate 150 0x61 \<and>
   length (truncateSnippet (replicate 200 (0x61 :: code_unit)) 150) = 150 \<and>
   truncateSnippet (replicate 200 (0x61 :: code_unit)) 150 = replicate 147 0x61 @ str ''...''"
  using truncateSnippet_integer_cap [of 150 "replicate 150 (0x61 :: code_unit)"]
        truncateSnippet_integer_cap [of 150 "replicate 200 (0x61 :: code_unit)"]
  by (simp add: str_def)

text \<open>
  The claim as written, for every cap, fails below 3, where the slice bound is negative
  and counts from the end of the text: six code units under a cap of 2 become eight.
  It also fails for a cap that is not an integer, which the configuration schema admits:
  151 code units under a cap of 150.5 become 150.
\<close>

theorem truncateSnippet_small_cap_counterexample:
  "truncateSnippet (str ''abcdef'') 2 = str ''abcde...'' \<and>
   length (truncateSnippet (str ''abcdef'') 2) = 8 \<and>
   length (truncateSnippet (replicate 151 (0x61 :: code_unit)) (301 / 2)) = 150"
proof -
  have a: "ToIntegerOrInfinity (- 1) = - 1"
    by code_simp
  have b: "ToIntegerOrInfinity (295 / 2) = 147"
    by code_simp
  show ?thesis
    by (simp add: truncateSnippet_def slice0_def a b Let_def str_def)
qed

section \<open>URL sanitization\<close>

lemma deleteAll_entries:
  assumes "URL_contract R"
  shows "searchParams_entries R (deleteAll R u ps) =
           filter (\<lambda>(n, v). n \<notin> set ps) (searchParams_entries R u)"
proof (induction ps arbitrary: u)
  case Nil
  then show ?case by (simp add: deleteAll_def)
next
  case (Cons p ps)
  have d: "searchParams_entries R (searchParams_delete R u p) =
             filter (\<lambda>(n, v). n \<noteq> p) (searchParams_entries R u)"
    using assms by (simp add: URL_contract_def)
  have "deleteAll R u (p # ps) = deleteAll R (searchParams_delete R u p) ps"
    by (simp add: deleteAll_def)
  then show ?case
    using Cons.IH [of "searchParams_delete R u p"] d
    by (auto intro!: filter_cong)
qed

lemma deleteAll_absent:
  assumes c: "URL_contract R"
      and a: "set ps \<inter> fst ` set (searchParams_entries R (searchParams_delete R u p)) = {}"
  shows "deleteAll R (searchParams_delete R u p) ps = searchParams_delete R u p"
  using a
proof (induction ps)
  case Nil
  then show ?case by (simp add: deleteAll_def)
next
  case (Cons q ps)
  have "q \<notin> fst ` set (searchParams_entries R (searchParams_delete R u p))"
    using Cons.prems by auto
  then have "searchParams_delete R (searchParams_delete R u p) q = searchParams_delete R u p"
    using c by (simp add: URL_contract_def)
  then show ?case using Cons by (simp add: deleteAll_def)
qed

lemma deleteAll_snoc:
  "deleteAll R u (ps @ [p]) = searchParams_delete R (deleteAll R u ps) p"
  by (simp add: deleteAll_def)

lemma trackingParams_snoc:
  "trackingParams = butlast trackingParams @ [str ''ref'']"
  by (simp add: trackingParams_def)

lemma cleanUrl_parsed:
  assumes c: "URL_contract R" and u: "URL_new R s = Some u"
  shows "cleanUrl R s = URL_toString R (deleteAll R u trackingParams)"
    and "URL_new R (cleanUrl R s) = Some (deleteAll R u trackingParams)"
    and "searchParams_entries R (deleteAll R u trackingParams) =
           filter (\<lambda>(n, v). n \<notin> set trackingParams) (searchParams_entries R u)"
    and "cleanUrl R (cleanUrl R s) = cleanUrl R s"
proof -
  define y where "y = deleteAll R u trackingParams"
  define z where "z = deleteAll R u (butlast trackingParams)"
  have yz: "y = searchParams_delete R z (str ''ref'')"
    unfolding y_def z_def using deleteAll_snoc [of R u "butlast trackingParams" "str ''ref''"]
      trackingParams_snoc by simp
  show 1: "cleanUrl R s = URL_toString R (deleteAll R u trackingParams)"
    using u by (simp add: cleanUrl_def deleteAll_def)
  have rt: "URL_new R (URL_toString R y) = Some y"
    using c unfolding yz by (simp add: URL_contract_def)
  show 2: "URL_new R (cleanUrl R s) = Some (deleteAll R u trackingParams)"
    using 1 rt by (simp add: y_def)
  show 3: "searchParams_entries R (deleteAll R u trackingParams) =
           filter (\<lambda>(n, v). n \<notin> set trackingParams) (searchParams_entries R u)"
    by (rule deleteAll_entries [OF c])
  have "set trackingParams \<inter> fst ` set (searchParams_entries R y) = {}"
    unfolding y_def 3 by auto
  then have "deleteAll R y trackingParams = y"
    unfolding yz by (rule deleteAll_absent [OF c])
  then have "cleanUrl R (URL_toString R y) = URL_toString R y"
    using rt by (simp add: cleanUrl_def deleteAll_def)
  then show "cleanUrl R (cleanUrl R s) = cleanUrl R s"
    using 1 by (simp add: y_def)
qed

lemma cleanUrl_unparsed: "URL_new R s = None \<Longrightarrow> cleanUrl R s = s"
  by (simp add: cleanUrl_def)

lemma cleanUrl_idempotent:
  assumes c: "URL_contract R"
  shows "cleanUrl R (cleanUrl R s) = cleanUrl R s"
proof (cases "URL_new R s")
  case None
  then show ?thesis by (simp add: cleanUrl_unparsed)
next
  case (Some u)
  then show ?thesis by (rule cleanUrl_parsed(4) [OF c])
qed

lemma trackingParams_head:
  "trackingParams = str ''utm_source'' # tl trackingParams"
  by (simp add: trackingParams_def)

lemma cleanUrl_example:
  assumes c: "URL_contract R"
      and u: "URL_new R (str ''https://x.com/a?utm_source=y&id=1'') = Some u"
      and e: "searchParams_entries R u = [(str ''utm_source'', str ''y''), (str ''id'', str ''1'')]"
      and h: "URL_toString R (searchParams_delete R u (str ''utm_source'')) = str ''https://x.com/a?id=1''"
  shows "cleanUrl R (str ''https://x.com/a?utm_source=y&id=1'') = str ''https://x.com/a?id=1''"
proof -
  have d: "searchParams_entries R (searchParams_delete R u (str ''utm_source'')) =
             [(str ''id'', str ''1'')]"
    using c e by (simp add: URL_contract_def str_def)
  have "set (tl trackingParams) \<inter>
          fst ` set (searchParams_entries R (searchParams_delete R u (str ''utm_source''))) = {}"
    unfolding d by (simp add: trackingParams_def str_def)
  then have "deleteAll R (searchParams_delete R u (str ''utm_source'')) (tl trackingParams) =
               searchParams_delete R u (str ''utm_source'')"
    by (rule deleteAll_absent [OF c])
  moreover have "deleteAll R u trackingParams =
      deleteAll R (searchParams_delete R u (str ''utm_source'')) (tl trackingParams)"
    by (subst trackingParams_head) (simp add: deleteAll_def)
  ultimately show ?thesis
    using u h by (simp add: cleanUrl_def deleteAll_def)
qed

text \<open>
  C4, for every runtime whose \<^verbatim>\<open>URL\<close> class keeps the contract: a string that does
  not parse is returned unchanged; for a string that parses, the result is the
  serialization of an object whose name--value pairs are those of the parsed URL without
  the nine tracking names, the others in their order, and the result parses back to that
  object; sanitizing is idempotent on every string; and where the runtime parses
  \<^verbatim>\<open>https://x.com/a?utm_source=y&id=1\<close> into the pairs \<open>utm_source=y\<close>, \<open>id=1\<close> and
  serializes what is left without the first as \<^verbatim>\<open>https://x.com/a?id=1\<close>, that string
  is the result.
\<close>

theorem cleanUrl_sanitizes:
  assumes c: "URL_contract R"
  shows "(URL_new R s = None \<longrightarrow> cleanUrl R s = s) \<and>
         (\<forall>u. URL_new R s = Some u \<longrightarrow>
              (\<exists>u'. cleanUrl R s = URL_toString R u' \<and> URL_new R (cleanUrl R s) = Some u' \<and>
                    searchParams_entries R u' =
                      filter (\<lambda>(n, v). n \<notin> set trackingParams) (searchParams_entries R u))) \<and>
         cleanUrl R (cleanUrl R s) = cleanUrl R s \<and>
         (\<forall>u. URL_new R (str ''https://x.com/a?utm_source=y&id=1'') = Some u \<and>
              searchParams_entries R u = [(str ''utm_source'', str ''y''), (str ''id'', str ''1'')] \<and>
              URL_toString R (searchParams_delete R u (str ''utm_source'')) = str ''https://x.com/a?id=1'' \<longrightarrow>
              cleanUrl R (str ''https://x.com/a?utm_source=y&id=1'') = str ''https://x.com/a?id=1'')"
  using cleanUrl_unparsed [of R s] cleanUrl_parsed(1,2,3) [OF c, of s] cleanUrl_idempotent [OF c, of s]
    cleanUrl_example [OF c]
  by blast

lemma example_names:
  "str ''utm_source'' \<noteq> str ''id''"
  by (simp add: str_def)

lemma exampleRuntime_entries:
  "searchParams_entries exampleRuntime (searchParams_delete exampleRuntime u p) =
     filter (\<lambda>(n, v). n \<noteq> p) (searchParams_entries exampleRuntime u)"
  using example_names
  by (cases u) (auto simp: exampleRuntime_def example_delete_def example_entries_def)

lemma exampleRuntime_absent:
  "q \<notin> fst ` set (searchParams_entries exampleRuntime (searchParams_delete exampleRuntime u p)) \<Longrightarrow>
   searchParams_delete exampleRuntime (searchParams_delete exampleRuntime u p) q =
     searchParams_delete exampleRuntime u p"
  using example_names
  by (cases u) (auto simp: exampleRuntime_def example_delete_def example_entries_def
                  split: if_splits)

lemma example_roundtrip: "example_new (example_href u) = Some u"
  by (cases u) (simp_all add: example_new_def example_href_def str_def)

lemma exampleRuntime_contract: "URL_contract exampleRuntime"
  unfolding URL_contract_def
  using exampleRuntime_entries exampleRuntime_absent
  by (simp add: example_roundtrip exampleRuntime_def [THEN arg_cong, of URL_new]
        exampleRuntime_def [THEN arg_cong, of URL_toString])

lemma example_unparsed: "URL_new exampleRuntime (str ''not a url'') = None"
  by (simp add: exampleRuntime_def example_new_def example_href_def str_def)

lemma exampleRuntime_cleanUrl:
  "cleanUrl exampleRuntime (str ''https://x.com/a?utm_source=y&id=1'') = str ''https://x.com/a?id=1''"
proof (rule cleanUrl_example [OF exampleRuntime_contract])
  show "URL_new exampleRuntime (str ''https://x.com/a?utm_source=y&id=1'') = Some Both"
    by (simp add: exampleRuntime_def example_new_def example_href_def)
  show "searchParams_entries exampleRuntime Both =
          [(str ''utm_source'', str ''y''), (str ''id'', str ''1'')]"
    by (simp add: exampleRuntime_def example_entries_def)
  show "URL_toString exampleRuntime (searchParams_delete exampleRuntime Both (str ''utm_source'')) =
          str ''https://x.com/a?id=1''"
    by (simp add: exampleRuntime_def example_delete_def example_href_def)
qed

theorem cleanUrl_sanitizes_witness:
  "cleanUrl exampleRuntime (str ''not a url'') = str ''not a url'' \<and>
   cleanUrl exampleRuntime (str ''https://x.com/a?utm_source=y&id=1'') = str ''https://x.com/a?id=1'' \<and>
   cleanUrl exampleRuntime (cleanUrl exampleRuntime (str ''https://x.com/a?utm_source=y&id=1'')) =
     cleanUrl exampleRuntime (str ''https://x.com/a?utm_source=y&id=1'')"
proof -
  have u: "URL_new exampleRuntime (str ''https://x.com/a?utm_source=y&id=1'') = Some Both"
    by (simp add: exampleRuntime_def example_new_def example_href_def)
  have e: "searchParams_entries exampleRuntime Both =
             [(str ''utm_source'', str ''y''), (str ''id'', str ''1'')]"
    by (simp add: exampleRuntime_def example_entries_def)
  have h: "URL_toString exampleRuntime (searchParams_delete exampleRuntime Both (str ''utm_source'')) =
             str ''https://x.com/a?id=1''"
    by (simp add: exampleRuntime_def example_delete_def example_href_def)
  show ?thesis
    using cleanUrl_sanitizes [OF exampleRuntime_contract, of "str ''not a url''"]
          cleanUrl_sanitizes [OF exampleRuntime_contract, of "str ''https://x.com/a?utm_source=y&id=1''"]
          u e h example_unparsed
    by blast
qed

section \<open>Numerals and configuration\<close>

lemma decimal_small: "n < 10 \<Longrightarrow> decimal n = [digit n]"
  by (subst decimal.simps) simp

lemma decimal_large: "10 \<le> n \<Longrightarrow> decimal n = decimal (n div 10) @ [digit (n mod 10)]"
  by (subst decimal.simps) simp

lemma numberToString_1: "numberToString R (Num 1) = str ''1''"
  by (simp add: numberToString_def isInteger_def integerToString_def decimal_small digit_def)

lemma numberToString_3: "numberToString R (Num 3) = str ''3''"
  by (simp add: numberToString_def isInteger_def integerToString_def decimal_small digit_def)

lemma numberToString_15000: "numberToString R (Num 15000) = str ''15000''"
  by (simp add: numberToString_def isInteger_def integerToString_def decimal_small decimal_large
        digit_def)

lemma parseInt_1: "parseInt (str ''1'') = Num 1"
  by (simp add: parseInt_def str_def isWhiteSpace_def isDigit_def Let_def digitsValue_def)

lemma parseInt_15000: "parseInt (str ''15000'') = Num 15000"
  by (simp add: parseInt_def str_def isWhiteSpace_def isDigit_def Let_def digitsValue_def)

lemma parseInt_cases: "parseInt s = NaN \<or> (\<exists>i. parseInt s = Num (of_int i))"
  by (auto simp: parseInt_def Let_def)

lemma parseInt_abc: "parseInt (str ''abc'') = NaN"
  by (simp add: parseInt_def str_def isWhiteSpace_def isDigit_def Let_def)

lemma parseInt_minus_1: "parseInt (str ''-1'') = Num (- 1)"
  by (simp add: parseInt_def str_def isWhiteSpace_def isDigit_def Let_def digitsValue_def)

lemma CONFIG_empty: "CONFIG R (\<lambda>k. None) = Inr defaultConfig"
  by (simp add: CONFIG_def EnvConfigSchema_parse_def coerceNumber_def outputFormatEnum_def
        preprocessFlag_def defaultConfig_def parseInt_1 parseInt_15000)

lemma CONFIG_rate_caps:
  "e ''DDG_MAX_RESULTS'' = None \<Longrightarrow> e ''DDG_MAX_SNIPPET_LENGTH'' = None \<Longrightarrow>
   e ''DDG_OUTPUT_FORMAT'' = None \<Longrightarrow> e ''DDG_ENABLE_FULL_CONTENT'' = None \<Longrightarrow>
   e ''DDG_STRIP_EMOJI'' = None \<Longrightarrow>
   CONFIG R e =
     Inr (defaultConfig\<lparr>rateLimit :=
            \<lparr>perSecond = parseInt (case e ''RATE_LIMIT_PER_SECOND'' of None \<Rightarrow> str ''1'' | Some s \<Rightarrow> s),
             perMonth = parseInt (case e ''RATE_LIMIT_PER_MONTH'' of None \<Rightarrow> str ''15000'' | Some s \<Rightarrow> s)\<rparr>\<rparr>)"
  by (simp add: CONFIG_def EnvConfigSchema_parse_def coerceNumber_def outputFormatEnum_def
        preprocessFlag_def defaultConfig_def)

lemma CONFIG_search:
  assumes "CONFIG R e = Inr cfg"
  shows "maxQueryLength (search cfg) = 400" "maxResults (search cfg) = 20"
        "1 \<le> defaultResults (search cfg)" "defaultResults (search cfg) \<le> 20"
        "e ''DDG_MAX_RESULTS'' = None \<Longrightarrow> defaultResults (search cfg) = 3"
        "\<And>s. e ''DDG_MAX_RESULTS'' = Some s \<Longrightarrow> Number R s = Num (defaultResults (search cfg))"
  using assms
  by (auto simp: CONFIG_def EnvConfigSchema_parse_def coerceNumber_def
      split: sum.splits option.splits number.splits if_splits prod.splits)

text \<open>
  C9: the claim asks start-up to fail on a malformed rate cap.  With
  \<^verbatim>\<open>RATE_LIMIT_PER_SECOND=abc\<close> configuration succeeds, the per-second cap is NaN, and
  no count is ever at or above it, so the per-second limit is off.
\<close>

theorem malformed_rate_cap_accepted:
  "CONFIG R (rateCapEnv ''abc'') =
     Inr (defaultConfig\<lparr>rateLimit := \<lparr>perSecond = NaN, perMonth = Num 15000\<rparr>\<rparr>) \<and>
   \<not> secondCapHit (defaultConfig\<lparr>rateLimit := \<lparr>perSecond = NaN, perMonth = Num 15000\<rparr>\<rparr>) rc"
  by (simp add: CONFIG_rate_caps rateCapEnv_def parseInt_abc parseInt_15000 secondCapHit_def
        num_ge_def)

section \<open>Rate limiting: admission\<close>

lemma checkRateLimit_reset:
  "checkRateLimit R cfg t rc =
     (let s = resetElapsedWindows t rc
      in if secondCapHit cfg s then (Inl (Error (perSecondMessage R cfg)), s)
         else if monthCapHit cfg s then (Inl (Error (perMonthMessage R cfg)), s)
         else (Inr (), s\<lparr>second := second s + 1, month := month s + 1\<rparr>))"
  by (simp add: checkRateLimit_def resetElapsedWindows_def secondCapHit_def monthCapHit_def Let_def)

lemma messages_differ: "perSecondMessage R cfg \<noteq> perMonthMessage R cfg'"
proof
  assume "perSecondMessage R cfg = perMonthMessage R cfg'"
  then have "last (perSecondMessage R cfg) = last (perMonthMessage R cfg')" by simp
  then show False
    by (simp add: perSecondMessage_def perMonthMessage_def str_def)
qed

text \<open>
  C2: with \<open>s\<close> the counters once every elapsed window is reset, a check that finds the
  per-second count at or above its cap throws the per-second message, one that finds
  only the monthly count at or above its cap throws the monthly message, and either
  leaves the counters as \<open>s\<close>: nothing is incremented.  Otherwise the check returns and
  both counters are one more than in \<open>s\<close>.  The two messages differ whatever the caps.
\<close>

theorem checkRateLimit_admission:
  "s = resetElapsedWindows t rc \<Longrightarrow>
     (secondCapHit cfg s \<longrightarrow>
        checkRateLimit R cfg t rc = (Inl (Error (perSecondMessage R cfg)), s)) \<and>
     (\<not> secondCapHit cfg s \<and> monthCapHit cfg s \<longrightarrow>
        checkRateLimit R cfg t rc = (Inl (Error (perMonthMessage R cfg)), s)) \<and>
     (\<not> secondCapHit cfg s \<and> \<not> monthCapHit cfg s \<longrightarrow>
        checkRateLimit R cfg t rc = (Inr (), s\<lparr>second := second s + 1, month := month s + 1\<rparr>)) \<and>
     perSecondMessage R cfg \<noteq> perMonthMessage R cfg"
  using messages_differ [of R cfg cfg] by (simp add: checkRateLimit_reset Let_def)

lemma perSecondMessage_default:
  "perSecondMessage R defaultConfig = str ''Rate limit exceeded: Maximum 1 request(s) per second''"
  by (simp add: perSecondMessage_def defaultConfig_def numberToString_1 str_def)

lemma perMonthMessage_default:
  "perMonthMessage R defaultConfig = str ''Rate limit exceeded: Maximum 15000 requests per month''"
  by (simp add: perMonthMessage_def defaultConfig_def numberToString_15000 str_def)

lemma default_caps:
  "secondCapHit defaultConfig rc = (1 \<le> second rc)"
  "monthCapHit defaultConfig rc = (15000 \<le> month rc)"
  by (simp_all add: secondCapHit_def monthCapHit_def defaultConfig_def num_ge_def)

theorem checkRateLimit_admission_witness:
  "checkRateLimit exampleRuntime defaultConfig 500 (requestCount_initial 0 0) =
     (Inr (), \<lparr>second = 1, month = 1, lastSecondReset = 0, lastMonthReset = 0\<rparr>) \<and>
   checkRateLimit exampleRuntime defaultConfig 600
       \<lparr>second = 1, month = 1, lastSecondReset = 0, lastMonthReset = 0\<rparr> =
     (Inl (Error (str ''Rate limit exceeded: Maximum 1 request(s) per second'')),
      \<lparr>second = 1, month = 1, lastSecondReset = 0, lastMonthReset = 0\<rparr>) \<and>
   checkRateLimit exampleRuntime defaultConfig 1001
       \<lparr>second = 1, month = 1, lastSecondReset = 0, lastMonthReset = 0\<rparr> =
     (Inr (), \<lparr>second = 1, month = 2, lastSecondReset = 1001, lastMonthReset = 0\<rparr>) \<and>
   checkRateLimit exampleRuntime defaultConfig 5000
       \<lparr>second = 0, month = 15000, lastSecondReset = 4500, lastMonthReset = 0\<rparr> =
     (Inl (Error (str ''Rate limit exceeded: Maximum 15000 requests per month'')),
      \<lparr>second = 0, month = 15000, lastSecondReset = 4500, lastMonthReset = 0\<rparr>)"
proof -
  have r1: "\<lparr>second = 0, month = 0, lastSecondReset = 0, lastMonthReset = 0\<rparr> =
      resetElapsedWindows 500 (requestCount_initial 0 0)"
    by (simp add: resetElapsedWindows_def requestCount_initial_def ONE_SECOND_MS_def ONE_MONTH_MS_def)
  have r2: "\<lparr>second = 1, month = 1, lastSecondReset = 0, lastMonthReset = 0\<rparr> =
      resetElapsedWindows 600 \<lparr>second = 1, month = 1, lastSecondReset = 0, lastMonthReset = 0\<rparr>"
    by (simp add: resetElapsedWindows_def ONE_SECOND_MS_def ONE_MONTH_MS_def)
  have r3: "\<lparr>second = 0, month = 1, lastSecondReset = 1001, lastMonthReset = 0\<rparr> =
      resetElapsedWindows 1001 \<lparr>second = 1, month = 1, lastSecondReset = 0, lastMonthReset = 0\<rparr>"
    by (simp add: resetElapsedWindows_def ONE_SECOND_MS_def ONE_MONTH_MS_def)
  have r4: "\<lparr>second = 0, month = 15000, lastSecondReset = 4500, lastMonthReset = 0\<rparr> =
      resetElapsedWindows 5000 \<lparr>second = 0, month = 15000, lastSecondReset = 4500, lastMonthReset = 0\<rparr>"
    by (simp add: resetElapsedWindows_def ONE_SECOND_MS_def ONE_MONTH_MS_def)
  have c1: "checkRateLimit exampleRuntime defaultConfig 500 (requestCount_initial 0 0) =
     (Inr (), \<lparr>second = 1, month = 1, lastSecondReset = 0, lastMonthReset = 0\<rparr>)"
    using checkRateLimit_admission [OF r1, of defaultConfig exampleRuntime, THEN conjunct2, THEN conjunct2, THEN conjunct1]
    by (simp add: default_caps)
  have c2: "checkRateLimit exampleRuntime defaultConfig 600
       \<lparr>second = 1, month = 1, lastSecondReset = 0, lastMonthReset = 0\<rparr> =
     (Inl (Error (str ''Rate limit exceeded: Maximum 1 request(s) per second'')),
      \<lparr>second = 1, month = 1, lastSecondReset = 0, lastMonthReset = 0\<rparr>)"
    using checkRateLimit_admission [OF r2, of defaultConfig exampleRuntime, THEN conjunct1]
    by (simp add: default_caps perSecondMessage_default)
  have c3: "checkRateLimit exampleRuntime defaultConfig 1001
       \<lparr>second = 1, month = 1, lastSecondReset = 0, lastMonthReset = 0\<rparr> =
     (Inr (), \<lparr>second = 1, month = 2, lastSecondReset = 1001, lastMonthReset = 0\<rparr>)"
    using checkRateLimit_admission [OF r3, of defaultConfig exampleRuntime, THEN conjunct2, THEN conjunct2, THEN conjunct1]
    by (simp add: default_caps)
  have c4: "checkRateLimit exampleRuntime defaultConfig 5000
       \<lparr>second = 0, month = 15000, lastSecondReset = 4500, lastMonthReset = 0\<rparr> =
     (Inl (Error (str ''Rate limit exceeded: Maximum 15000 requests per month'')),
      \<lparr>second = 0, month = 15000, lastSecondReset = 4500, lastMonthReset = 0\<rparr>)"
    using checkRateLimit_admission [OF r4, of defaultConfig exampleRuntime, THEN conjunct2, THEN conjunct1]
    by (simp add: default_caps perMonthMessage_default)
  show ?thesis
    using c1 c2 c3 c4 by blast
qed

section \<open>Rate limiting: the caps as an invariant\<close>

lemma rat_nat_int_le: "(rat_of_nat n \<le> rat_of_int k) = (int n \<le> k)"
  by (metis of_int_le_iff of_int_of_nat_eq)

lemma rat_int_nat_le: "(rat_of_int k \<le> rat_of_nat n) = (k \<le> int n)"
  by (metis of_int_le_iff of_int_of_nat_eq)

lemma cap_step:
  "\<not> num_ge (Num (of_nat n)) (Num (of_int k)) \<Longrightarrow> num_le (Num (of_nat (n + 1))) (Num (of_int k))"
proof -
  assume "\<not> num_ge (Num (of_nat n)) (Num (of_int k))"
  then have "\<not> k \<le> int n" by (simp add: num_ge_def rat_int_nat_le)
  then have "int (n + 1) \<le> k" by simp
  then have "rat_of_nat (n + 1) \<le> rat_of_int k" by (simp only: rat_nat_int_le)
  then show ?thesis by (simp add: num_le_def num_ge_def)
qed

lemma cap_zero: "0 \<le> k \<Longrightarrow> num_le (Num (of_nat 0)) (Num (of_int k))"
  by (simp add: num_le_def num_ge_def)

lemma checkRateLimit_withinCaps:
  assumes a: "perSecond (rateLimit cfg) = Num (of_int a)" "0 \<le> a"
      and b: "perMonth (rateLimit cfg) = Num (of_int b)" "0 \<le> b"
      and inv: "withinCaps cfg rc"
  shows "withinCaps cfg (snd (checkRateLimit R cfg t rc))"
proof -
  define s where "s = resetElapsedWindows t rc"
  have s: "withinCaps cfg s"
    using inv a b cap_zero [of a] cap_zero [of b]
    by (simp add: s_def withinCaps_def resetElapsedWindows_def)
  show ?thesis
  proof (cases "secondCapHit cfg s \<or> monthCapHit cfg s")
    case True
    then have "snd (checkRateLimit R cfg t rc) = s"
      by (auto simp: checkRateLimit_reset Let_def s_def)
    then show ?thesis using s by simp
  next
    case False
    then have "snd (checkRateLimit R cfg t rc) = s\<lparr>second := second s + 1, month := month s + 1\<rparr>"
      by (auto simp: checkRateLimit_reset Let_def s_def)
    moreover have "num_le (Num (of_nat (second s + 1))) (Num (of_int a))"
      using False a by (intro cap_step) (simp add: secondCapHit_def)
    moreover have "num_le (Num (of_nat (month s + 1))) (Num (of_int b))"
      using False b by (intro cap_step) (simp add: monthCapHit_def)
    ultimately show ?thesis using a b by (simp add: withinCaps_def)
  qed
qed

lemma performWebSearch_requestCount:
  "requestCount (snd (performWebSearch R cfg W args st)) =
     snd (checkRateLimit R cfg (Date_now W) (requestCount st))"
  by (simp add: performWebSearch_def Let_def split: prod.splits sum.splits)

lemma performNewsSearch_requestCount:
  "requestCount (snd (performNewsSearch R cfg W args st)) =
     snd (checkRateLimit R cfg (Date_now W) (requestCount st))"
  by (simp add: performNewsSearch_def Let_def split: prod.splits sum.splits)

lemma callTool_snd:
  "snd (callTool R cfg W request st) =
     (case arguments request of
        None \<Rightarrow> st
      | Some args \<Rightarrow>
          if falsy (Some args) then st
          else if name request = str ''duckduckgo_web_search''
          then (if \<not> isWebSearchArgs cfg args then st
                else snd (performWebSearch R cfg W (asWebSearchArgs args) st))
          else if name request = str ''duckduckgo_news_search''
          then (if \<not> isNewsSearchArgs cfg args then st
                else snd (performNewsSearch R cfg W (asNewsSearchArgs args) st))
          else st)"
  by (simp add: callTool_def toolOutcome_def split: option.splits prod.splits sum.splits error.splits)

lemma callTool_requestCount:
  "requestCount (snd (callTool R cfg W request st)) = requestCount st \<or>
   requestCount (snd (callTool R cfg W request st)) =
     snd (checkRateLimit R cfg (Date_now W) (requestCount st))"
  by (simp add: callTool_snd performWebSearch_requestCount performNewsSearch_requestCount
        split: option.splits)

lemma serve_withinCaps:
  assumes "perSecond (rateLimit cfg) = Num (of_int a)" "0 \<le> a"
      and "perMonth (rateLimit cfg) = Num (of_int b)" "0 \<le> b"
  shows "withinCaps cfg (requestCount st) \<Longrightarrow> withinCaps cfg (requestCount (serve R cfg calls st))"
proof (induction calls arbitrary: st)
  case Nil
  then show ?case by simp
next
  case (Cons c calls)
  obtain W request where c: "c = (W, request)" by (cases c)
  have "withinCaps cfg (requestCount (snd (callTool R cfg W request st)))"
    using callTool_requestCount [of R cfg W request st] Cons.prems
      checkRateLimit_withinCaps [OF assms, of "requestCount st" R "Date_now W"]
    by auto
  then show ?case using Cons.IH c by simp
qed

lemma initial_withinCaps:
  assumes "perSecond (rateLimit cfg) = Num (of_int a)" "0 \<le> a"
      and "perMonth (rateLimit cfg) = Num (of_int b)" "0 \<le> b"
  shows "withinCaps cfg (requestCount (initialState t t'))"
  using assms by (simp add: withinCaps_def initialState_def requestCount_initial_def num_le_def num_ge_def)

text \<open>
  C7, as the code has it: when the configured caps are integers that are not negative,
  the counters are within the caps after every sequence of tool calls from the initial
  state, whatever the tools called, their arguments, the clock and the provider's
  answers.  (\<^verbatim>\<open>parseInt\<close> yields an integer or NaN, by \<open>parseInt_cases\<close>.)
\<close>

theorem serve_withinCaps_from_start:
  "perSecond (rateLimit cfg) = Num (of_int a) \<Longrightarrow> 0 \<le> a \<Longrightarrow>
   perMonth (rateLimit cfg) = Num (of_int b) \<Longrightarrow> 0 \<le> b \<Longrightarrow>
   withinCaps cfg (requestCount (serve R cfg calls (initialState t t')))"
  by (rule serve_withinCaps [where a = a and b = b]) (simp_all add: initial_withinCaps)

text \<open>
  The claim as written, for every configured cap, fails for a cap the environment sets
  below zero: \<^verbatim>\<open>RATE_LIMIT_PER_SECOND=-1\<close> is accepted, and the initial count 0 is
  above it before any call is made.
\<close>

theorem unvalidated_cap_counterexample:
  "CONFIG exampleRuntime (rateCapEnv ''-1'') =
     Inr (defaultConfig\<lparr>rateLimit := \<lparr>perSecond = Num (- 1), perMonth = Num 15000\<rparr>\<rparr>) \<and>
   \<not> withinCaps (defaultConfig\<lparr>rateLimit := \<lparr>perSecond = Num (- 1), perMonth = Num 15000\<rparr>\<rparr>)
       (requestCount
          (serve exampleRuntime
             (defaultConfig\<lparr>rateLimit := \<lparr>perSecond = Num (- 1), perMonth = Num 15000\<rparr>\<rparr>) []
             (initialState 0 0)))"
  by (simp add: CONFIG_rate_caps rateCapEnv_def parseInt_minus_1 parseInt_15000 withinCaps_def
        initialState_def requestCount_initial_def num_le_def num_ge_def)

lemma checkRateLimit_first:
  "rateLimit cfg = \<lparr>perSecond = Num 1, perMonth = Num 15000\<rparr> \<Longrightarrow>
   checkRateLimit R cfg 100 (requestCount_initial 0 0) =
     (Inr (), \<lparr>second = 1, month = 1, lastSecondReset = 0, lastMonthReset = 0\<rparr>)"
  by (simp add: checkRateLimit_reset resetElapsedWindows_def requestCount_initial_def
        secondCapHit_def monthCapHit_def num_ge_def ONE_SECOND_MS_def ONE_MONTH_MS_def)

lemma checkRateLimit_second:
  "rateLimit cfg = \<lparr>perSecond = Num 1, perMonth = Num 15000\<rparr> \<Longrightarrow>
   checkRateLimit R cfg 200 \<lparr>second = 1, month = 1, lastSecondReset = 0, lastMonthReset = 0\<rparr> =
     (Inl (Error (perSecondMessage R cfg)),
      \<lparr>second = 1, month = 1, lastSecondReset = 0, lastMonthReset = 0\<rparr>)"
  by (simp add: checkRateLimit_reset resetElapsedWindows_def
        secondCapHit_def monthCapHit_def num_ge_def ONE_SECOND_MS_def ONE_MONTH_MS_def)

lemma checkRateLimit_second_Suc:
  "rateLimit cfg = \<lparr>perSecond = Num 1, perMonth = Num 15000\<rparr> \<Longrightarrow>
   checkRateLimit R cfg 200
       \<lparr>second = Suc 0, month = Suc 0, lastSecondReset = 0, lastMonthReset = 0\<rparr> =
     (Inl (Error (perSecondMessage R cfg)),
      \<lparr>second = Suc 0, month = Suc 0, lastSecondReset = 0, lastMonthReset = 0\<rparr>)"
  using checkRateLimit_second [of cfg R] by simp

lemma rateLimit_outputConfig:
  "rateLimit (outputConfig fmt) = \<lparr>perSecond = Num 1, perMonth = Num 15000\<rparr>"
  by (simp add: outputConfig_def defaultConfig_def)

lemma rateLimit_defaultConfig:
  "rateLimit defaultConfig = \<lparr>perSecond = Num 1, perMonth = Num 15000\<rparr>"
  by (simp add: defaultConfig_def)

lemma isWeb_imp_isNews: "isWebSearchArgs cfg a \<Longrightarrow> isNewsSearchArgs cfg a"
  by (simp add: isWebSearchArgs_def isNewsSearchArgs_def split: if_splits)

lemma catsArgs_valid: "isWebSearchArgs defaultConfig catsArgs"
  by (simp add: catsArgs_def isWebSearchArgs_def isObject_def getProp_def isValidQuery_def
        isValidCount_def isValidLimit_def isValidSafeSearch_def isValidRegion_def isValidTime_def
        trim_def isWhiteSpace_def str_def defaultConfig_def)

lemma catsArgs_news_valid: "isNewsSearchArgs defaultConfig catsArgs"
  using catsArgs_valid by (rule isWeb_imp_isNews)

lemma catsArgs_truthy: "\<not> falsy (Some catsArgs)"
  by (simp add: falsy_def catsArgs_def)

lemma names_differ: "str ''duckduckgo_news_search'' \<noteq> str ''duckduckgo_web_search''"
  by (simp add: str_def)

theorem serve_withinCaps_from_start_witness:
  "withinCaps defaultConfig
     (requestCount
        (serve exampleRuntime defaultConfig
           [(exampleWorld 100 noAnswer noAnswer,
             \<lparr>name = str ''duckduckgo_web_search'', arguments = Some catsArgs\<rparr>),
            (exampleWorld 200 noAnswer noAnswer,
             \<lparr>name = str ''duckduckgo_news_search'', arguments = Some catsArgs\<rparr>)]
           (initialState 0 0))) \<and>
   requestCount
     (serve exampleRuntime defaultConfig
        [(exampleWorld 100 noAnswer noAnswer,
          \<lparr>name = str ''duckduckgo_web_search'', arguments = Some catsArgs\<rparr>),
         (exampleWorld 200 noAnswer noAnswer,
          \<lparr>name = str ''duckduckgo_news_search'', arguments = Some catsArgs\<rparr>)]
        (initialState 0 0)) =
     \<lparr>second = 1, month = 1, lastSecondReset = 0, lastMonthReset = 0\<rparr>"
proof -
  have caps: "perSecond (rateLimit defaultConfig) = Num (of_int 1)"
             "perMonth (rateLimit defaultConfig) = Num (of_int 15000)"
    by (simp_all add: defaultConfig_def)
  have run: "requestCount
     (serve exampleRuntime defaultConfig
        [(exampleWorld 100 noAnswer noAnswer,
          \<lparr>name = str ''duckduckgo_web_search'', arguments = Some catsArgs\<rparr>),
         (exampleWorld 200 noAnswer noAnswer,
          \<lparr>name = str ''duckduckgo_news_search'', arguments = Some catsArgs\<rparr>)]
        (initialState 0 0)) =
     \<lparr>second = 1, month = 1, lastSecondReset = 0, lastMonthReset = 0\<rparr>"
    by (simp add: callTool_snd catsArgs_valid catsArgs_news_valid catsArgs_truthy names_differ
          performWebSearch_requestCount performNewsSearch_requestCount exampleWorld_def
          initialState_def checkRateLimit_first checkRateLimit_second_Suc rateLimit_defaultConfig)
  show ?thesis
    using serve_withinCaps_from_start [OF caps(1) _ caps(2), of exampleRuntime
            "[(exampleWorld 100 noAnswer noAnswer,
               \<lparr>name = str ''duckduckgo_web_search'', arguments = Some catsArgs\<rparr>),
              (exampleWorld 200 noAnswer noAnswer,
               \<lparr>name = str ''duckduckgo_news_search'', arguments = Some catsArgs\<rparr>)]" 0 0] run
    by simp
qed

section \<open>Validation\<close>

lemma trim_all_whitespace: "list_all isWhiteSpace s \<Longrightarrow> trim s = []"
proof -
  assume "list_all isWhiteSpace s"
  then have d: "dropWhile isWhiteSpace s = []"
    by (induction s) auto
  show ?thesis unfolding trim_def d by simp
qed

lemma invalid_query:
  "maxQueryLength (search cfg) = 400 \<Longrightarrow> list_all isWhiteSpace s \<or> 400 < length s \<Longrightarrow>
   \<not> isValidQuery cfg (Some (JStr s))"
  by (auto simp: isValidQuery_def trim_all_whitespace)

lemma invalid_limit:
  "maxResults (search cfg) = 20 \<Longrightarrow> \<forall>n. v = JNum n \<longrightarrow> n < 1 \<or> 20 < n \<Longrightarrow>
   \<not> isValidLimit cfg (Some v)"
  by (auto simp: isValidLimit_def split: jsvalue.splits)

lemma invalid_count:
  "maxResults (search cfg) = 20 \<Longrightarrow> \<forall>n. v = JNum n \<longrightarrow> n < 1 \<or> 20 < n \<Longrightarrow>
   \<not> isValidCount cfg (Some v)"
  by (auto simp: isValidCount_def split: jsvalue.splits)

lemma callTool_invalid_web:
  "arguments request = Some (JObj kvs) \<Longrightarrow> name request = str ''duckduckgo_web_search'' \<Longrightarrow>
   \<not> isWebSearchArgs cfg (JObj kvs) \<Longrightarrow>
   callTool R cfg W request st =
     (\<lparr>content_text = str ''Error: '' @ invalidArgumentsMessage cfg ''duckduckgo_web_search'',
       isError = True\<rparr>, st)"
  by (simp add: callTool_def toolOutcome_def falsy_def)

lemma callTool_invalid_news:
  "arguments request = Some (JObj kvs) \<Longrightarrow> name request = str ''duckduckgo_news_search'' \<Longrightarrow>
   \<not> isNewsSearchArgs cfg (JObj kvs) \<Longrightarrow>
   callTool R cfg W request st =
     (\<lparr>content_text = str ''Error: '' @ invalidArgumentsMessage cfg ''duckduckgo_news_search'',
       isError = True\<rparr>, st)"
  by (simp add: callTool_def toolOutcome_def falsy_def names_differ)

text \<open>
  C3, as the code has it: an argument object whose \<^verbatim>\<open>query\<close> is a string that is
  empty, all white space or longer than 400 code units, or whose \<^verbatim>\<open>limit\<close> or
  \<^verbatim>\<open>count\<close> is present and is not a number in [1, 20], passes neither guard; the call
  is answered with the invalid-arguments error and leaves the state as it was: no
  provider call, no counter touched.
\<close>

theorem invalid_arguments_rejected:
  assumes cfg: "CONFIG R e = Inr cfg"
      and args: "arguments request = Some (JObj kvs)"
      and bad: "(\<exists>s. map_of kvs (str ''query'') = Some (JStr s) \<and>
                     (list_all isWhiteSpace s \<or> 400 < length s)) \<or>
                (\<exists>v. map_of kvs (str ''limit'') = Some v \<and> (\<forall>n. v = JNum n \<longrightarrow> n < 1 \<or> 20 < n)) \<or>
                (\<exists>v. map_of kvs (str ''count'') = Some v \<and> (\<forall>n. v = JNum n \<longrightarrow> n < 1 \<or> 20 < n))"
  shows "\<not> isWebSearchArgs cfg (JObj kvs) \<and> \<not> isNewsSearchArgs cfg (JObj kvs) \<and>
         snd (callTool R cfg W request st) = st \<and>
         providerCalls (snd (callTool R cfg W request st)) = providerCalls st \<and>
         (name request = str ''duckduckgo_web_search'' \<longrightarrow>
            fst (callTool R cfg W request st) =
              \<lparr>content_text = str ''Error: '' @ invalidArgumentsMessage cfg ''duckduckgo_web_search'',
                isError = True\<rparr>) \<and>
         (name request = str ''duckduckgo_news_search'' \<longrightarrow>
            fst (callTool R cfg W request st) =
              \<lparr>content_text = str ''Error: '' @ invalidArgumentsMessage cfg ''duckduckgo_news_search'',
                isError = True\<rparr>)"
proof -
  note c = CONFIG_search(1,2) [OF cfg]
  have "\<not> isValidQuery cfg (getProp (JObj kvs) ''query'') \<or>
        \<not> isValidLimit cfg (getProp (JObj kvs) ''limit'') \<or>
        \<not> isValidCount cfg (getProp (JObj kvs) ''count'')"
    using bad invalid_query [OF c(1)] invalid_limit [OF c(2)] invalid_count [OF c(2)]
    by (auto simp: getProp_def)
  then have w: "\<not> isWebSearchArgs cfg (JObj kvs)" and n: "\<not> isNewsSearchArgs cfg (JObj kvs)"
    by (auto simp: isWebSearchArgs_def isNewsSearchArgs_def)
  have s: "snd (callTool R cfg W request st) = st"
    using args w n by (simp add: callTool_snd falsy_def)
  show ?thesis
    using w n s callTool_invalid_web [OF args _ w, of R W st]
      callTool_invalid_news [OF args _ n, of R W st]
    by simp
qed

lemma blankArgs_query:
  "\<exists>s. map_of [(str ''query'', JStr (str ''   ''))] (str ''query'') = Some (JStr s) \<and>
       (list_all isWhiteSpace s \<or> 400 < length s)"
  by (simp add: isWhiteSpace_def str_def)

lemma invalidArgumentsMessage_default:
  "invalidArgumentsMessage defaultConfig ''duckduckgo_web_search'' =
     str ''Invalid arguments for duckduckgo_web_search. Query must be a non-empty string (max 400 chars).''"
  by (simp add: invalidArgumentsMessage_def defaultConfig_def decimal_small decimal_large digit_def
        str_def)

theorem invalid_arguments_rejected_witness:
  "callTool exampleRuntime defaultConfig (exampleWorld 100 noAnswer noAnswer)
       \<lparr>name = str ''duckduckgo_web_search'', arguments = Some blankArgs\<rparr> (initialState 0 0) =
     (\<lparr>content_text =
         str ''Error: '' @
         str ''Invalid arguments for duckduckgo_web_search. Query must be a non-empty string (max 400 chars).'',
       isError = True\<rparr>,
      initialState 0 0)"
proof -
  let ?req = "\<lparr>name = str ''duckduckgo_web_search'', arguments = Some blankArgs\<rparr>"
  have args: "arguments ?req = Some (JObj [(str ''query'', JStr (str ''   ''))])"
    by (simp add: blankArgs_def)
  have bad: "(\<exists>s. map_of [(str ''query'', JStr (str ''   ''))] (str ''query'') = Some (JStr s) \<and>
                     (list_all isWhiteSpace s \<or> 400 < length s)) \<or>
             (\<exists>v. map_of [(str ''query'', JStr (str ''   ''))] (str ''limit'') = Some v \<and>
                  (\<forall>n. v = JNum n \<longrightarrow> n < 1 \<or> 20 < n)) \<or>
             (\<exists>v. map_of [(str ''query'', JStr (str ''   ''))] (str ''count'') = Some v \<and>
                  (\<forall>n. v = JNum n \<longrightarrow> n < 1 \<or> 20 < n))"
    using blankArgs_query by blast
  have n: "name ?req = str ''duckduckgo_web_search''" by simp
  show ?thesis
    using invalid_arguments_rejected [OF CONFIG_empty args bad, of exampleRuntime
            "exampleWorld 100 noAnswer noAnswer" "initialState 0 0"] n
    by (simp add: invalidArgumentsMessage_default prod_eq_iff)
qed

text \<open>
  The claim as written asks for an integer.  The guards ask for a number: the limit 1.5
  passes \<^verbatim>\<open>isWebSearchArgs\<close>, the call is admitted and the provider is called.
\<close>

lemma fractionArgs_valid: "isWebSearchArgs defaultConfig fractionArgs"
  by (simp add: fractionArgs_def isWebSearchArgs_def isObject_def getProp_def isValidQuery_def
        isValidCount_def isValidLimit_def isValidSafeSearch_def isValidRegion_def isValidTime_def
        trim_def isWhiteSpace_def str_def defaultConfig_def)

lemma fractionArgs_as:
  "asWebSearchArgs fractionArgs =
     \<lparr>query = str ''a'', count = None, limit = Some (3 / 2), safeSearch = None, time = None,
      region = None\<rparr>"
  by (simp add: fractionArgs_def asWebSearchArgs_def asNumber_def asString_def asSafeSearch_def
        asTimeRange_def getProp_def str_def)

theorem fractional_limit_counterexample:
  "isWebSearchArgs defaultConfig fractionArgs \<and>
   callTool exampleRuntime defaultConfig (exampleWorld 100 noAnswer noAnswer)
       \<lparr>name = str ''duckduckgo_web_search'', arguments = Some fractionArgs\<rparr> (initialState 0 0) =
     (\<lparr>content_text = str ''No results for '' @ quote @ str ''a'' @ quote, isError = False\<rparr>,
      \<lparr>requestCount = \<lparr>second = 1, month = 1, lastSecondReset = 0, lastMonthReset = 0\<rparr>,
       providerCalls =
         [SearchCall (str ''a'')
            [(''safeSearch'', SafeSearchOption MODERATE), (''region'', RegionOption (str ''wt-wt''))]]\<rparr>)"
proof -
  have p: "performWebSearch exampleRuntime defaultConfig (exampleWorld 100 noAnswer noAnswer)
             (asWebSearchArgs fractionArgs) (initialState 0 0) =
           (Inr (str ''No results for '' @ quote @ str ''a'' @ quote),
            \<lparr>requestCount = \<lparr>second = 1, month = 1, lastSecondReset = 0, lastMonthReset = 0\<rparr>,
             providerCalls =
               [SearchCall (str ''a'')
                  [(''safeSearch'', SafeSearchOption MODERATE),
                   (''region'', RegionOption (str ''wt-wt''))]]\<rparr>)"
    by (simp add: performWebSearch_def fractionArgs_as exampleWorld_def initialState_def
          checkRateLimit_first rateLimit_defaultConfig noAnswer_def noWebResultsMessage_def
          webSearchOptions_def getTimeType_def getSafeSearchType_def
          defaultConfig_def [THEN arg_cong, of search] Let_def)
  have f: "\<not> falsy (Some fractionArgs)"
    by (simp add: falsy_def fractionArgs_def)
  show ?thesis
    using fractionArgs_valid p f
    by (simp add: callTool_def toolOutcome_def)
qed

section \<open>Parameter translation\<close>

lemma performWebSearch_calls:
  "providerCalls (snd (performWebSearch R cfg W args st)) = providerCalls st \<or>
   providerCalls (snd (performWebSearch R cfg W args st)) =
     providerCalls st @
       [SearchCall (query args)
          (webSearchOptions
             (case safeSearch args of None \<Rightarrow> defaultSafeSearch (search cfg) | Some s \<Rightarrow> s)
             (case region args of None \<Rightarrow> defaultRegion (search cfg) | Some r \<Rightarrow> r)
             (case time args of None \<Rightarrow> TimeAll | Some t \<Rightarrow> t))]"
  by (simp add: performWebSearch_def Let_def split: prod.splits sum.splits)

lemma performNewsSearch_calls:
  "providerCalls (snd (performNewsSearch R cfg W args st)) = providerCalls st \<or>
   providerCalls (snd (performNewsSearch R cfg W args st)) =
     providerCalls st @
       [SearchNewsCall (query args)
          (newsSearchOptions
             (case safeSearch args of None \<Rightarrow> defaultSafeSearch (search cfg) | Some s \<Rightarrow> s)
             (case time args of None \<Rightarrow> TimeAll | Some t \<Rightarrow> t))]"
  by (simp add: performNewsSearch_def Let_def split: prod.splits sum.splits)

text \<open>
  C8: \<^verbatim>\<open>getTimeType\<close> maps day, week, month and year to the provider's constants and
  \<^verbatim>\<open>all\<close> to \<^verbatim>\<open>undefined\<close>; the options object has the key \<^verbatim>\<open>time\<close> exactly when a
  constant is there, so for \<^verbatim>\<open>all\<close> no pair with that key exists, whatever its value;
  and a search calls the provider, if at all, with these options.
\<close>

theorem time_range_translation:
  "getTimeType TimeDay = Some DAY \<and> getTimeType TimeWeek = Some WEEK \<and>
   getTimeType TimeMonth = Some MONTH \<and> getTimeType TimeYear = Some YEAR \<and>
   getTimeType TimeAll = None \<and>
   map_of (webSearchOptions level reg t) ''time'' = map_option TimeOption (getTimeType t) \<and>
   map_of (newsSearchOptions level t) ''time'' = map_option TimeOption (getTimeType t) \<and>
   ''time'' \<notin> fst ` set (webSearchOptions level reg TimeAll) \<and>
   ''time'' \<notin> fst ` set (newsSearchOptions level TimeAll) \<and>
   (providerCalls (snd (performWebSearch R cfg W args st)) = providerCalls st \<or>
    providerCalls (snd (performWebSearch R cfg W args st)) =
      providerCalls st @
        [SearchCall (query args)
           (webSearchOptions
              (case safeSearch args of None \<Rightarrow> defaultSafeSearch (search cfg) | Some s \<Rightarrow> s)
              (case region args of None \<Rightarrow> defaultRegion (search cfg) | Some r \<Rightarrow> r)
              (case time args of None \<Rightarrow> TimeAll | Some t \<Rightarrow> t))]) \<and>
   (providerCalls (snd (performNewsSearch R cfg W nargs st)) = providerCalls st \<or>
    providerCalls (snd (performNewsSearch R cfg W nargs st)) =
      providerCalls st @
        [SearchNewsCall (query nargs)
           (newsSearchOptions
              (case safeSearch nargs of None \<Rightarrow> defaultSafeSearch (search cfg) | Some s \<Rightarrow> s)
              (case time nargs of None \<Rightarrow> TimeAll | Some t \<Rightarrow> t))])"
proof -
  have g: "getTimeType TimeDay = Some DAY \<and> getTimeType TimeWeek = Some WEEK \<and>
      getTimeType TimeMonth = Some MONTH \<and> getTimeType TimeYear = Some YEAR \<and>
      getTimeType TimeAll = None"
    by (simp add: getTimeType_def)
  have w: "map_of (webSearchOptions level reg t) ''time'' = map_option TimeOption (getTimeType t)"
    by (simp add: webSearchOptions_def Let_def split: option.splits)
  have n: "map_of (newsSearchOptions level t) ''time'' = map_option TimeOption (getTimeType t)"
    by (simp add: newsSearchOptions_def Let_def split: option.splits)
  have a: "''time'' \<notin> fst ` set (webSearchOptions level reg TimeAll)"
    by (simp add: webSearchOptions_def getTimeType_def)
  have b: "''time'' \<notin> fst ` set (newsSearchOptions level TimeAll)"
    by (simp add: newsSearchOptions_def getTimeType_def)
  show ?thesis
    using g w n a b performWebSearch_calls [of R cfg W args st]
      performNewsSearch_calls [of R cfg W nargs st]
    by blast
qed

section \<open>The effective limit\<close>

lemma slice0_length: "0 \<le> e \<Longrightarrow> rat_of_nat (length (slice0 xs e)) \<le> e"
proof -
  assume e: "0 \<le> e"
  have f: "0 \<le> \<lfloor>e\<rfloor>" using e by simp
  have "length (slice0 xs e) \<le> nat \<lfloor>e\<rfloor>"
    using e by (simp add: slice0_def ToIntegerOrInfinity_def Let_def)
  then have "rat_of_nat (length (slice0 xs e)) \<le> rat_of_nat (nat \<lfloor>e\<rfloor>)"
    by (simp only: of_nat_le_iff)
  also have "rat_of_nat (nat \<lfloor>e\<rfloor>) = rat_of_int \<lfloor>e\<rfloor>"
    using f by simp
  also have "\<dots> \<le> e" by (rule of_int_floor_le)
  finally show ?thesis .
qed

lemma webResults_length: "length (webResults R cfg eff rs) = length (slice0 rs eff)"
  by (simp add: webResults_def Let_def)

lemma newsResults_length: "length (newsResults R cfg eff rs) = length (slice0 rs eff)"
  by (simp add: newsResults_def Let_def)

lemma valid_limit_cases:
  "isValidLimit cfg v \<Longrightarrow> v = None \<or> (\<exists>n. v = Some (JNum n) \<and> 1 \<le> n \<and> n \<le> maxResults (search cfg))"
  by (auto simp: isValidLimit_def split: option.splits jsvalue.splits)

lemma valid_count_cases:
  "isValidCount cfg v \<Longrightarrow> v = None \<or> (\<exists>n. v = Some (JNum n) \<and> 1 \<le> n \<and> n \<le> maxResults (search cfg))"
  by (auto simp: isValidCount_def split: option.splits jsvalue.splits)

lemma effectiveLimit_as:
  "effectiveLimit cfg (asWebSearchArgs a) = effectiveLimit cfg (asNewsSearchArgs a)"
  by (simp add: effectiveLimit_def asWebSearchArgs_def asNewsSearchArgs_def split: option.splits)

lemma effectiveLimit_valid:
  assumes v: "isNewsSearchArgs cfg a"
  shows "(\<forall>v. getProp a ''limit'' = Some v \<longrightarrow> v = JNum (effectiveLimit cfg (asNewsSearchArgs a))) \<and>
         (getProp a ''limit'' = None \<longrightarrow>
            (\<forall>v. getProp a ''count'' = Some v \<longrightarrow> v = JNum (effectiveLimit cfg (asNewsSearchArgs a)))) \<and>
         (getProp a ''limit'' = None \<and> getProp a ''count'' = None \<longrightarrow>
            effectiveLimit cfg (asNewsSearchArgs a) = defaultResults (search cfg))"
proof -
  have l: "isValidLimit cfg (getProp a ''limit'')" and c: "isValidCount cfg (getProp a ''count'')"
    using v by (simp_all add: isNewsSearchArgs_def split: if_splits)
  show ?thesis
    using valid_limit_cases [OF l] valid_count_cases [OF c]
    by (auto simp: effectiveLimit_def asNewsSearchArgs_def asNumber_def)
qed

lemma effectiveLimit_range:
  assumes v: "isNewsSearchArgs cfg a"
      and d: "1 \<le> defaultResults (search cfg)" "defaultResults (search cfg) \<le> maxResults (search cfg)"
  shows "1 \<le> effectiveLimit cfg (asNewsSearchArgs a) \<and>
         effectiveLimit cfg (asNewsSearchArgs a) \<le> maxResults (search cfg)"
proof -
  have l: "isValidLimit cfg (getProp a ''limit'')" and c: "isValidCount cfg (getProp a ''count'')"
    using v by (simp_all add: isNewsSearchArgs_def split: if_splits)
  show ?thesis
    using valid_limit_cases [OF l] valid_count_cases [OF c] d
    by (auto simp: effectiveLimit_def asNewsSearchArgs_def asNumber_def)
qed

text \<open>
  C1: for arguments that passed a guard, under a configuration the environment resolved
  to, the effective limit (the same for both tools) is \<^verbatim>\<open>limit\<close> when that is present,
  else \<^verbatim>\<open>count\<close> when that is present, else the configured default, which is
  \<^verbatim>\<open>DDG_MAX_RESULTS\<close> or 3; and the arrays the two searches render have at most that
  many elements, however long the provider's lists \<open>rs\<close> and \<open>ns\<close>.
\<close>

lemma performWebSearch_rendered:
  assumes "DDG_search W (query args) opts = Inr sr" "\<not> noResults sr"
      and "fst (checkRateLimit R cfg (Date_now W) (requestCount st)) = Inr ()"
      and "opts = webSearchOptions
             (case safeSearch args of None \<Rightarrow> defaultSafeSearch (search cfg) | Some s \<Rightarrow> s)
             (case region args of None \<Rightarrow> defaultRegion (search cfg) | Some r \<Rightarrow> r)
             (case time args of None \<Rightarrow> TimeAll | Some t \<Rightarrow> t)"
  shows "fst (performWebSearch R cfg W args st) =
           Inr (renderWeb R cfg (query args) (effectiveLimit cfg args)
                  (webResults R cfg (effectiveLimit cfg args) (results sr)))"
  using assms
  by (cases "checkRateLimit R cfg (Date_now W) (requestCount st)")
     (auto simp: performWebSearch_def Let_def split: sum.splits)

lemma performNewsSearch_rendered:
  assumes "DDG_searchNews W (query args) opts = Inr sr" "\<not> noResults sr"
      and "fst (checkRateLimit R cfg (Date_now W) (requestCount st)) = Inr ()"
      and "opts = newsSearchOptions
             (case safeSearch args of None \<Rightarrow> defaultSafeSearch (search cfg) | Some s \<Rightarrow> s)
             (case time args of None \<Rightarrow> TimeAll | Some t \<Rightarrow> t)"
  shows "fst (performNewsSearch R cfg W args st) =
           Inr (renderNews R cfg (query args) (effectiveLimit cfg args)
                  (newsResults R cfg (effectiveLimit cfg args) (results sr)))"
  using assms
  by (cases "checkRateLimit R cfg (Date_now W) (requestCount st)")
     (auto simp: performNewsSearch_def Let_def split: sum.splits)

theorem effective_limit_bounds_results:
  assumes cfg: "CONFIG R e = Inr cfg"
      and valid: "isWebSearchArgs cfg a \<or> isNewsSearchArgs cfg a"
      and eff: "eff = effectiveLimit cfg (asWebSearchArgs a)"
  shows "effectiveLimit cfg (asNewsSearchArgs a) = eff \<and>
         (\<forall>v. getProp a ''limit'' = Some v \<longrightarrow> v = JNum eff) \<and>
         (getProp a ''limit'' = None \<longrightarrow> (\<forall>v. getProp a ''count'' = Some v \<longrightarrow> v = JNum eff)) \<and>
         (getProp a ''limit'' = None \<and> getProp a ''count'' = None \<longrightarrow>
            eff = defaultResults (search cfg)) \<and>
         (e ''DDG_MAX_RESULTS'' = None \<longrightarrow> defaultResults (search cfg) = 3) \<and>
         (\<forall>s. e ''DDG_MAX_RESULTS'' = Some s \<longrightarrow> Number R s = Num (defaultResults (search cfg))) \<and>
         rat_of_nat (length (webResults R cfg eff rs)) \<le> eff \<and>
         rat_of_nat (length (newsResults R cfg eff ns)) \<le> eff \<and>
         (\<forall>sr. (\<forall>q opts. DDG_search W q opts = Inr sr) \<and> \<not> noResults sr \<and>
               fst (checkRateLimit R cfg (Date_now W) (requestCount st)) = Inr () \<longrightarrow>
               fst (performWebSearch R cfg W (asWebSearchArgs a) st) =
                 Inr (renderWeb R cfg (query (asWebSearchArgs a)) eff
                        (webResults R cfg eff (results sr)))) \<and>
         (\<forall>sr. (\<forall>q opts. DDG_searchNews W q opts = Inr sr) \<and> \<not> noResults sr \<and>
               fst (checkRateLimit R cfg (Date_now W) (requestCount st)) = Inr () \<longrightarrow>
               fst (performNewsSearch R cfg W (asNewsSearchArgs a) st) =
                 Inr (renderNews R cfg (query (asNewsSearchArgs a)) eff
                        (newsResults R cfg eff (results sr))))"
proof -
  have v: "isNewsSearchArgs cfg a" using valid isWeb_imp_isNews by blast
  have e1: "effectiveLimit cfg (asNewsSearchArgs a) = eff"
    using eff by (simp add: effectiveLimit_as)
  have r: "1 \<le> eff"
    using effectiveLimit_range [OF v] CONFIG_search(2,3,4) [OF cfg] e1 by simp
  have len: "rat_of_nat (length (slice0 xs eff)) \<le> eff" for xs :: "'x list"
    using r by (intro slice0_length) simp
  have first: "effectiveLimit cfg (asNewsSearchArgs a) = eff \<and>
         (\<forall>v. getProp a ''limit'' = Some v \<longrightarrow> v = JNum eff) \<and>
         (getProp a ''limit'' = None \<longrightarrow> (\<forall>v. getProp a ''count'' = Some v \<longrightarrow> v = JNum eff)) \<and>
         (getProp a ''limit'' = None \<and> getProp a ''count'' = None \<longrightarrow>
            eff = defaultResults (search cfg)) \<and>
         (e ''DDG_MAX_RESULTS'' = None \<longrightarrow> defaultResults (search cfg) = 3) \<and>
         (\<forall>s. e ''DDG_MAX_RESULTS'' = Some s \<longrightarrow> Number R s = Num (defaultResults (search cfg))) \<and>
         rat_of_nat (length (webResults R cfg eff rs)) \<le> eff \<and>
         rat_of_nat (length (newsResults R cfg eff ns)) \<le> eff"
    using effectiveLimit_valid [OF v] e1 CONFIG_search(5,6) [OF cfg]
      len [of rs] len [of ns]
    by (simp add: webResults_length newsResults_length)
  have web: "fst (performWebSearch R cfg W (asWebSearchArgs a) st) =
                 Inr (renderWeb R cfg (query (asWebSearchArgs a)) eff
                        (webResults R cfg eff (results sr)))"
    if "\<forall>q opts. DDG_search W q opts = Inr sr" "\<not> noResults sr"
       "fst (checkRateLimit R cfg (Date_now W) (requestCount st)) = Inr ()" for sr
    unfolding eff using that by (intro performWebSearch_rendered [OF _ _ _ refl]) auto
  have news: "fst (performNewsSearch R cfg W (asNewsSearchArgs a) st) =
                 Inr (renderNews R cfg (query (asNewsSearchArgs a)) eff
                        (newsResults R cfg eff (results sr)))"
    if "\<forall>q opts. DDG_searchNews W q opts = Inr sr" "\<not> noResults sr"
       "fst (checkRateLimit R cfg (Date_now W) (requestCount st)) = Inr ()" for sr
    unfolding e1 [symmetric] using that by (intro performNewsSearch_rendered [OF _ _ _ refl]) auto
  show ?thesis
    using first web news by blast
qed

lemma catsArgs_limit: "effectiveLimit defaultConfig (asWebSearchArgs catsArgs) = 2"
  by (simp add: catsArgs_def effectiveLimit_def asWebSearchArgs_def asNumber_def getProp_def str_def)

lemma catsArgs_prop: "getProp catsArgs ''limit'' = Some (JNum 2)"
  by (simp add: catsArgs_def getProp_def str_def)

theorem effective_limit_bounds_results_witness:
  "effectiveLimit defaultConfig (asWebSearchArgs catsArgs) = 2 \<and>
   effectiveLimit defaultConfig (asNewsSearchArgs catsArgs) = 2 \<and>
   getProp catsArgs ''limit'' = Some (JNum 2) \<and>
   defaultResults (search defaultConfig) = 3 \<and>
   rat_of_nat (length (webResults exampleRuntime defaultConfig 2
                         [exampleResult, exampleResult, exampleResult])) \<le> 2 \<and>
   webResults exampleRuntime defaultConfig 2 [exampleResult, exampleResult, exampleResult] =
     [\<lparr>title = str ''Cats'', description = str ''About cats'',
       url = str ''https://x.com/a?id=1'', hostname = str ''x.com''\<rparr>,
      \<lparr>title = str ''Cats'', description = str ''About cats'',
       url = str ''https://x.com/a?id=1'', hostname = str ''x.com''\<rparr>]"
proof -
  have t: "ToIntegerOrInfinity 2 = 2"
    by (simp add: ToIntegerOrInfinity_def)
  have c: "cleanUrl exampleRuntime (str ''https://x.com/a?utm_source=y&id=1'') =
             str ''https://x.com/a?id=1''"
    by (rule exampleRuntime_cleanUrl)
  have d: "truncateSnippet (str ''About cats'') 150 = str ''About cats''"
    by (simp add: truncateSnippet_def str_length)
  have n: "str ''About cats'' \<noteq> []"
    by (simp add: str_def)
  have w: "webResults exampleRuntime defaultConfig 2 [exampleResult, exampleResult, exampleResult] =
     [\<lparr>title = str ''Cats'', description = str ''About cats'',
       url = str ''https://x.com/a?id=1'', hostname = str ''x.com''\<rparr>,
      \<lparr>title = str ''Cats'', description = str ''About cats'',
       url = str ''https://x.com/a?id=1'', hostname = str ''x.com''\<rparr>]"
    by (simp add: webResults_def slice0_def t exampleResult_def defaultConfig_def c d n Let_def)
  show ?thesis
    using effective_limit_bounds_results [OF CONFIG_empty disjI1 [OF catsArgs_valid]
            catsArgs_limit [symmetric],
            of exampleRuntime "[exampleResult, exampleResult, exampleResult]" "[]"] w
    by (simp add: catsArgs_limit catsArgs_prop)
qed

section \<open>No results\<close>

lemma performWebSearch_no_results:
  assumes "DDG_search W q opts = Inr sr" "noResults sr"
      and "fst (checkRateLimit R cfg (Date_now W) (requestCount st)) = Inr ()"
      and "q = query args"
      and "opts = webSearchOptions
             (case safeSearch args of None \<Rightarrow> defaultSafeSearch (search cfg) | Some s \<Rightarrow> s)
             (case region args of None \<Rightarrow> defaultRegion (search cfg) | Some r \<Rightarrow> r)
             (case time args of None \<Rightarrow> TimeAll | Some t \<Rightarrow> t)"
  shows "fst (performWebSearch R cfg W args st) = Inr (noWebResultsMessage (query args))"
  using assms
  by (cases "checkRateLimit R cfg (Date_now W) (requestCount st)")
     (auto simp: performWebSearch_def Let_def split: sum.splits)

lemma performNewsSearch_no_results:
  assumes "DDG_searchNews W q opts = Inr sr" "noResults sr"
      and "fst (checkRateLimit R cfg (Date_now W) (requestCount st)) = Inr ()"
      and "q = query args"
      and "opts = newsSearchOptions
             (case safeSearch args of None \<Rightarrow> defaultSafeSearch (search cfg) | Some s \<Rightarrow> s)
             (case time args of None \<Rightarrow> TimeAll | Some t \<Rightarrow> t)"
  shows "fst (performNewsSearch R cfg W args st) = Inr (noNewsResultsMessage (query args))"
  using assms
  by (cases "checkRateLimit R cfg (Date_now W) (requestCount st)")
     (auto simp: performNewsSearch_def Let_def split: sum.splits)

text \<open>
  C6, as the code has it: when the provider's answer carries the no-results signal, an
  admitted search returns the fixed message naming the query, in every output format
  (the configuration is arbitrary).
\<close>

theorem no_results_signal_message:
  assumes "\<forall>q opts. \<exists>sr. DDG_search W q opts = Inr sr \<and> noResults sr"
      and "\<forall>q opts. \<exists>sr. DDG_searchNews W q opts = Inr sr \<and> noResults sr"
      and "fst (checkRateLimit R cfg (Date_now W) (requestCount st)) = Inr ()"
  shows "fst (performWebSearch R cfg W args st) =
           Inr (str ''No results for '' @ quote @ query args @ quote) \<and>
         fst (performNewsSearch R cfg W nargs st) =
           Inr (str ''No news for '' @ quote @ query nargs @ quote)"
proof -
  obtain sr where "DDG_search W (query args)
      (webSearchOptions
             (case safeSearch args of None \<Rightarrow> defaultSafeSearch (search cfg) | Some s \<Rightarrow> s)
             (case region args of None \<Rightarrow> defaultRegion (search cfg) | Some r \<Rightarrow> r)
             (case time args of None \<Rightarrow> TimeAll | Some t \<Rightarrow> t)) = Inr sr" "noResults sr"
    using assms(1) by blast
  then have w: "fst (performWebSearch R cfg W args st) = Inr (noWebResultsMessage (query args))"
    using assms(3) by (intro performWebSearch_no_results) auto
  obtain nr where "DDG_searchNews W (query nargs)
      (newsSearchOptions
             (case safeSearch nargs of None \<Rightarrow> defaultSafeSearch (search cfg) | Some s \<Rightarrow> s)
             (case time nargs of None \<Rightarrow> TimeAll | Some t \<Rightarrow> t)) = Inr nr" "noResults nr"
    using assms(2) by blast
  then have n: "fst (performNewsSearch R cfg W nargs st) = Inr (noNewsResultsMessage (query nargs))"
    using assms(3) by (intro performNewsSearch_no_results) auto
  show ?thesis using w n by (simp add: noWebResultsMessage_def noNewsResultsMessage_def)
qed

theorem no_results_signal_message_witness:
  "fst (performWebSearch exampleRuntime (outputConfig Json) (exampleWorld 100 noAnswer noAnswer)
          (webQuery ''cats'') (initialState 0 0)) =
     Inr (str ''No results for '' @ quote @ str ''cats'' @ quote) \<and>
   fst (performNewsSearch exampleRuntime (outputConfig Minimal) (exampleWorld 100 noAnswer noAnswer)
          (newsQuery ''cats'') (initialState 0 0)) =
     Inr (str ''No news for '' @ quote @ str ''cats'' @ quote)"
proof -
  have a: "\<forall>q opts. \<exists>sr. DDG_search (exampleWorld 100 noAnswer noAnswer) q opts = Inr sr \<and> noResults sr"
    by (simp add: exampleWorld_def noAnswer_def)
  have b: "\<forall>q opts. \<exists>sr. DDG_searchNews (exampleWorld 100 noAnswer noAnswer) q opts = Inr sr \<and> noResults sr"
    by (simp add: exampleWorld_def noAnswer_def)
  have c: "fst (checkRateLimit exampleRuntime cfg (Date_now (exampleWorld 100 noAnswer noAnswer))
             (requestCount (initialState 0 0))) = Inr ()"
    if "rateLimit cfg = \<lparr>perSecond = Num 1, perMonth = Num 15000\<rparr>" for cfg
    using that by (simp add: exampleWorld_def initialState_def checkRateLimit_first)
  have q: "query (webQuery ''cats'') = str ''cats''" "query (newsQuery ''cats'') = str ''cats''"
    by (simp_all add: webQuery_def newsQuery_def)
  show ?thesis
    using no_results_signal_message [OF a b c [OF rateLimit_outputConfig [of Json]],
            where args = "webQuery ''cats''" and nargs = "newsQuery ''cats''"]
          no_results_signal_message [OF a b c [OF rateLimit_outputConfig [of Minimal]],
            where args = "webQuery ''cats''" and nargs = "newsQuery ''cats''"]
    by (simp add: q)
qed

text \<open>
  The claim as written speaks of zero results.  The short circuit tests the signal, not
  the list: for an answer with an empty list and no signal the formats run, and give an
  empty array in \<^verbatim>\<open>json\<close>, the empty string in \<^verbatim>\<open>minimal\<close>, and a header with no
  lines in \<^verbatim>\<open>dense\<close>.
\<close>

lemma webResults_Nil: "webResults R cfg eff [] = []"
  by (simp add: webResults_def slice0_def Let_def)

lemma newsResults_Nil: "newsResults R cfg eff [] = []"
  by (simp add: newsResults_def slice0_def Let_def)

lemma effectiveLimit_webQuery:
  "effectiveLimit (outputConfig fmt) (webQuery q) = 3"
  "effectiveLimit (outputConfig fmt) (newsQuery q) = 3"
  by (simp_all add: effectiveLimit_def webQuery_def newsQuery_def outputConfig_def defaultConfig_def)

lemma renderWeb_Nil:
  "renderWeb R (outputConfig Json) q 3 [] = str ''[]''"
  "renderWeb R (outputConfig Minimal) q 3 [] = []"
  "renderWeb R (outputConfig Dense) q 3 [] = str ''Web:'' @ quote @ q @ quote @ str '' (0/3)'' @ newline"
  by (simp_all add: renderWeb_def outputConfig_def defaultConfig_def stringifyArray_def join_def
        str_def decimal_small digit_def numberToString_3 [unfolded str_def, simplified])

lemma renderNews_Nil:
  "renderNews R (outputConfig Json) q 3 [] = str ''[]''"
  "renderNews R (outputConfig Minimal) q 3 [] = []"
  "renderNews R (outputConfig Dense) q 3 [] = str ''News:'' @ quote @ q @ quote @ str '' (0/3)'' @ newline"
  by (simp_all add: renderNews_def outputConfig_def defaultConfig_def stringifyArray_def join_def
        str_def decimal_small digit_def numberToString_3 [unfolded str_def, simplified])

theorem empty_result_list_counterexample:
  "fst (performWebSearch exampleRuntime (outputConfig Json) (exampleWorld 100 emptyAnswer emptyAnswer)
          (webQuery ''cats'') (initialState 0 0)) = Inr (str ''[]'') \<and>
   fst (performWebSearch exampleRuntime (outputConfig Minimal) (exampleWorld 100 emptyAnswer emptyAnswer)
          (webQuery ''cats'') (initialState 0 0)) = Inr [] \<and>
   fst (performWebSearch exampleRuntime (outputConfig Dense) (exampleWorld 100 emptyAnswer emptyAnswer)
          (webQuery ''cats'') (initialState 0 0)) =
     Inr (str ''Web:'' @ quote @ str ''cats'' @ quote @ str '' (0/3)'' @ newline) \<and>
   fst (performNewsSearch exampleRuntime (outputConfig Json) (exampleWorld 100 emptyAnswer emptyAnswer)
          (newsQuery ''cats'') (initialState 0 0)) = Inr (str ''[]'')"
proof -
  let ?W = "exampleWorld 100 emptyAnswer emptyAnswer"
  have q: "query (webQuery ''cats'') = str ''cats''" "query (newsQuery ''cats'') = str ''cats''"
    by (simp_all add: webQuery_def newsQuery_def)
  have c: "fst (checkRateLimit exampleRuntime (outputConfig fmt) (Date_now ?W)
             (requestCount (initialState 0 0))) = Inr ()" for fmt
    by (simp add: exampleWorld_def initialState_def checkRateLimit_first rateLimit_outputConfig)
  have w: "fst (performWebSearch exampleRuntime (outputConfig fmt) ?W (webQuery ''cats'')
                 (initialState 0 0)) =
           Inr (renderWeb exampleRuntime (outputConfig fmt) (str ''cats'') 3 [])" for fmt
    using performWebSearch_rendered [where W = ?W and args = "webQuery ''cats''"
        and sr = emptyAnswer and R = exampleRuntime and cfg = "outputConfig fmt"
        and st = "initialState 0 0", OF _ _ c refl]
    by (simp add: exampleWorld_def emptyAnswer_def effectiveLimit_webQuery webResults_Nil q)
  have n: "fst (performNewsSearch exampleRuntime (outputConfig fmt) ?W (newsQuery ''cats'')
                 (initialState 0 0)) =
           Inr (renderNews exampleRuntime (outputConfig fmt) (str ''cats'') 3 [])" for fmt
    using performNewsSearch_rendered [where W = ?W and args = "newsQuery ''cats''"
        and sr = emptyAnswer and R = exampleRuntime and cfg = "outputConfig fmt"
        and st = "initialState 0 0", OF _ _ c refl]
    by (simp add: exampleWorld_def emptyAnswer_def effectiveLimit_webQuery newsResults_Nil q)
  show ?thesis
    by (simp only: w n renderWeb_Nil renderNews_Nil)
qed

section \<open>The dispatcher\<close>

text \<open>
  C10: a tool call whose arguments are absent or null is answered with an error result
  whose text carries \<^verbatim>\<open>No arguments provided\<close>; the handler returns it (nothing is
  thrown to the caller) and the state is unchanged.
\<close>

theorem callTool_no_arguments:
  "arguments request = None \<or> arguments request = Some JNull \<Longrightarrow>
   callTool R cfg W request st =
     (\<lparr>content_text = str ''Error: No arguments provided'', isError = True\<rparr>, st)"
  by (auto simp: callTool_def toolOutcome_def falsy_def str_def)

theorem callTool_no_arguments_witness:
  "callTool exampleRuntime defaultConfig
       (exampleWorld 0 \<lparr>noResults = True, results = []\<rparr> \<lparr>noResults = True, results = []\<rparr>)
       \<lparr>name = str ''duckduckgo_web_search'', arguments = None\<rparr> (initialState 0 0) =
     (\<lparr>content_text = str ''Error: No arguments provided'', isError = True\<rparr>, initialState 0 0) \<and>
   callTool exampleRuntime defaultConfig
       (exampleWorld 0 \<lparr>noResults = True, results = []\<rparr> \<lparr>noResults = True, results = []\<rparr>)
       \<lparr>name = str ''duckduckgo_news_search'', arguments = Some JNull\<rparr> (initialState 0 0) =
     (\<lparr>content_text = str ''Error: No arguments provided'', isError = True\<rparr>, initialState 0 0)"
  using callTool_no_arguments [of "\<lparr>name = str ''duckduckgo_web_search'', arguments = None\<rparr>"
          exampleRuntime defaultConfig
          "exampleWorld 0 \<lparr>noResults = True, results = []\<rparr> \<lparr>noResults = True, results = []\<rparr>"
          "initialState 0 0"]
        callTool_no_arguments [of "\<lparr>name = str ''duckduckgo_news_search'', arguments = Some JNull\<rparr>"
          exampleRuntime defaultConfig
          "exampleWorld 0 \<lparr>noResults = True, results = []\<rparr> \<lparr>noResults = True, results = []\<rparr>"
          "initialState 0 0"]
  by simp

end
